theory Spec2Isabelle
  imports Complex_Main "HOL-Library.AList"
begin

section \<open>JavaScript values shared by the components\<close>

text \<open>
  A thrown JavaScript value.  Every \<^verbatim>\<open>throw\<close> of the modelled code raises a plain
  \<^verbatim>\<open>Error\<close>; the class \<^verbatim>\<open>SchemaValidationError\<close>
  (src/domain/database/entities/Database.ts) is declared by the repository, so it is a
  constructor of the error type as well.  Its message is assembled by the class
  constructor from the four arguments.
\<close>

datatype js_error =
    Error string
  | SchemaValidationError string string string string

fun error_message :: "js_error \<Rightarrow> string" where
  "error_message (Error m) = m"
| "error_message (SchemaValidationError objectType objectName validationIssue m) =
     m @ '': '' @ validationIssue @ '' for '' @ objectType @ '' '' @ [CHR 0x27] @ objectName @ [CHR 0x27]"

fun is_SchemaValidationError :: "js_error \<Rightarrow> bool" where
  "is_SchemaValidationError (SchemaValidationError _ _ _ _) = True"
| "is_SchemaValidationError (Error _) = False"

text \<open>Dates are milliseconds since the epoch, as \<^verbatim>\<open>Date.now()\<close> and
  \<^verbatim>\<open>getTime()\<close> give them.\<close>

type_synonym date = int

section \<open>PerformanceAlert (domain/performance/entities/PerformanceAlert.ts)\<close>

datatype AlertType =
    connection_pool_high_utilization
  | slow_query_detected
  | high_cpu_usage
  | high_memory_usage
  | high_disk_usage
  | connection_timeout
  | query_timeout

datatype AlertSeverity = low | medium | high | critical

datatype AlertStatus = Active | Acknowledged | Resolved

record PerformanceAlert =
  alertId :: string
  alertType :: AlertType
  severity :: AlertSeverity
  alertMessage :: string
  details :: "(string \<times> string) list"
  createdAt :: date
  status :: AlertStatus
  acknowledgedAt :: "date option"
  resolvedAt :: "date option"

text \<open>The constructor: a new alert is active and carries neither timestamp.\<close>

definition new_PerformanceAlert ::
  "string \<Rightarrow> AlertType \<Rightarrow> AlertSeverity \<Rightarrow> string \<Rightarrow> (string \<times> string) list \<Rightarrow> date
     \<Rightarrow> PerformanceAlert" where
  "new_PerformanceAlert i t sev msg det created =
     \<lparr>alertId = i, alertType = t, severity = sev, alertMessage = msg, details = det,
      createdAt = created, status = Active, acknowledgedAt = None, resolvedAt = None\<rparr>"

text \<open>\<^verbatim>\<open>acknowledge()\<close>: throws on a resolved alert, otherwise sets the status and
  the timestamp (\<open>now\<close> is the value of \<^verbatim>\<open>new Date()\<close>).\<close>

definition acknowledge :: "PerformanceAlert \<Rightarrow> date \<Rightarrow> js_error + PerformanceAlert" where
  "acknowledge a now =
     (if status a = Resolved then Inl (Error ''Cannot acknowledge a resolved alert'')
      else Inr (a\<lparr>status := Acknowledged, acknowledgedAt := Some now\<rparr>))"

text \<open>\<^verbatim>\<open>resolve()\<close> has no guard and no \<^verbatim>\<open>throw\<close>.\<close>

definition resolve :: "PerformanceAlert \<Rightarrow> date \<Rightarrow> PerformanceAlert" where
  "resolve a now = a\<lparr>status := Resolved, resolvedAt := Some now\<rparr>"

definition isActive :: "PerformanceAlert \<Rightarrow> bool" where
  "isActive a = (status a = Active)"

definition isAcknowledged :: "PerformanceAlert \<Rightarrow> bool" where
  "isAcknowledged a = (status a = Acknowledged)"

definition isResolved :: "PerformanceAlert \<Rightarrow> bool" where
  "isResolved a = (status a = Resolved)"

definition getDuration :: "PerformanceAlert \<Rightarrow> date \<Rightarrow> int" where
  "getDuration a now = (case resolvedAt a of Some t \<Rightarrow> t | None \<Rightarrow> now) - createdAt a"

text \<open>\<^verbatim>\<open>shouldEscalate(thresholdMinutes)\<close>; the quotient is a JavaScript number,
  taken here as an exact real.\<close>

definition shouldEscalate :: "PerformanceAlert \<Rightarrow> real \<Rightarrow> date \<Rightarrow> bool" where
  "shouldEscalate a thresholdMinutes now =
     (if status a \<noteq> Active then False
      else
        (let minutesSinceCreated = real_of_int (now - createdAt a) / (1000 * 60)
         in minutesSinceCreated > thresholdMinutes))"

text \<open>The statuses an alert can be in: what the constructor followed by any sequence of
  \<^verbatim>\<open>acknowledge\<close> and \<^verbatim>\<open>resolve\<close> calls produces.\<close>

inductive reachable_alert :: "PerformanceAlert \<Rightarrow> bool" where
  created: "reachable_alert (new_PerformanceAlert i t sev msg det c)"
| acked: "reachable_alert a \<Longrightarrow> acknowledge a now = Inr a' \<Longrightarrow> reachable_alert a'"
| resolved: "reachable_alert a \<Longrightarrow> reachable_alert (resolve a now)"

section \<open>Database types (types/database.types.ts)\<close>

datatype DatabaseType = mssql | mysql | postgresql

text \<open>The configuration is only handed to the driver; its \<^verbatim>\<open>options\<close> sub-object is
  part of what the driver reads and is not inspected by the modelled code.\<close>

record DatabaseConfig =
  host :: string
  port :: "int option"
  database :: string
  user :: string
  password :: string
  ssl :: "bool option"

datatype SqlParameter = PString string | PNumber int | PBoolean bool | PDate date | PNull

text \<open>A cell of a driver row (\<^verbatim>\<open>any\<close>), and a row as the list of its named cells.\<close>

datatype sql_value = VNull | VNumber int | VString string | VBoolean bool

type_synonym row = "(string \<times> sql_value) list"

record QueryOptions =
  timeout :: "int option"
  maxRows :: "int option"
  stream :: "bool option"
  parameters :: "SqlParameter list option"

text \<open>The options object \<^verbatim>\<open>{ parameters }\<close>.\<close>

definition parameters_only :: "SqlParameter list option \<Rightarrow> QueryOptions" where
  "parameters_only ps = \<lparr>timeout = None, maxRows = None, stream = None, parameters = ps\<rparr>"

text \<open>\<^verbatim>\<open>QueryResult\<close>: the fields the adapters set (\<^verbatim>\<open>output\<close> and
  \<^verbatim>\<open>metadata\<close> are never set by them).\<close>

record QueryResult =
  success :: bool
  data :: "row list option"
  recordset :: "row list option"
  rowsAffected :: int
  returnValue :: "sql_value option"
  error :: "string option"
  executionTime :: int

section \<open>The drivers and the clock\<close>

text \<open>
  The database drivers (the \<^verbatim>\<open>mssql\<close>, \<^verbatim>\<open>mysql\<close> and \<^verbatim>\<open>pg\<close>
  libraries), the databases behind them and the clock are outside the repository.  They
  are a parameter of the model: a world \<open>'w\<close> and, for every driver call the adapters
  make, a function from the world to the call's outcome and the world after it.  A
  promise that rejects, or a call that throws, is \<open>Rejected e\<close> with the text \<open>e\<close> that
  \<^verbatim>\<open>error instanceof Error ? error.message : String(error)\<close> extracts from the thrown
  value; for a call without a result, \<open>Some e\<close> is the rejection and \<open>None\<close> the normal
  return.  Theorems quantify over all such functions.
\<close>

datatype 'a settled = Fulfilled 'a | Rejected string

datatype mssql_rowsAffected = RowsArray "int list" | RowsNumber int | RowsUndefined

record mssql_result =
  mssql_recordset :: "row list option"
  mssql_rowsAffected :: mssql_rowsAffected
  mssql_returnValue :: "sql_value option"

text \<open>What \<^verbatim>\<open>[result] = await connection.query(...)\<close> binds: an array of rows, an
  object (with its \<^verbatim>\<open>affectedRows\<close> and \<^verbatim>\<open>insertId\<close> when it has them), or
  anything else.\<close>

datatype mysql_result = MyRows "row list" | MyObject "int option" "int option" | MyOther

record pg_result =
  pg_rows :: "row list"
  pg_rowCount :: "int option"

record 'w drivers =
  Date_now :: "'w \<Rightarrow> date"
  mssql_new_ConnectionPool :: "DatabaseConfig \<Rightarrow> 'w \<Rightarrow> string option \<times> 'w"
  mssql_pool_connect :: "'w \<Rightarrow> string option \<times> 'w"
  mssql_pool_close :: "'w \<Rightarrow> string option \<times> 'w"
  mssql_request_query :: "string \<Rightarrow> QueryOptions option \<Rightarrow> 'w \<Rightarrow> mssql_result settled \<times> 'w"
  mysql_createConnection :: "DatabaseConfig \<Rightarrow> 'w \<Rightarrow> string option \<times> 'w"
  mysql_connection_end :: "'w \<Rightarrow> string option \<times> 'w"
  mysql_connection_execute :: "string \<Rightarrow> SqlParameter list \<Rightarrow> 'w \<Rightarrow> mysql_result settled \<times> 'w"
  mysql_connection_query :: "string \<Rightarrow> 'w \<Rightarrow> mysql_result settled \<times> 'w"
  pg_new_Pool :: "DatabaseConfig \<Rightarrow> 'w \<Rightarrow> string option \<times> 'w"
  pg_pool_end :: "'w \<Rightarrow> string option \<times> 'w"
  pg_pool_query :: "string \<Rightarrow> SqlParameter list option \<Rightarrow> 'w \<Rightarrow> pg_result settled \<times> 'w"

section \<open>Adapters (database/adapters)\<close>

text \<open>
  \<^verbatim>\<open>BaseDatabaseAdapter\<close> and its three subclasses.  \<open>pool\<close> tells whether the
  adapter's driver handle (\<^verbatim>\<open>this.pool\<close>, for MySQL \<^verbatim>\<open>this.connection\<close>) is
  non-null; the handle itself lives in the world.
\<close>

record adapter =
  dbType :: DatabaseType
  config :: DatabaseConfig
  connected :: bool
  pool :: bool

definition new_adapter :: "DatabaseType \<Rightarrow> DatabaseConfig \<Rightarrow> adapter" where
  "new_adapter t cfg = \<lparr>dbType = t, config = cfg, connected = False, pool = False\<rparr>"

definition isConnected :: "adapter \<Rightarrow> bool" where
  "isConnected a = connected a"

definition getType :: "adapter \<Rightarrow> DatabaseType" where
  "getType a = dbType a"

subsection \<open>connect and disconnect\<close>

definition mssql_connect :: "'w drivers \<Rightarrow> adapter \<Rightarrow> 'w \<Rightarrow> js_error option \<times> adapter \<times> 'w" where
  "mssql_connect D a w =
     (case mssql_new_ConnectionPool D (config a) w of
        (Some e, w1) \<Rightarrow>
          (Some (Error (''MSSQL connection failed: '' @ e)), a\<lparr>connected := False\<rparr>, w1)
      | (None, w1) \<Rightarrow>
          (case mssql_pool_connect D w1 of
             (Some e, w2) \<Rightarrow>
               (Some (Error (''MSSQL connection failed: '' @ e)),
                a\<lparr>pool := True, connected := False\<rparr>, w2)
           | (None, w2) \<Rightarrow> (None, a\<lparr>pool := True, connected := True\<rparr>, w2)))"

definition mssql_disconnect :: "'w drivers \<Rightarrow> adapter \<Rightarrow> 'w \<Rightarrow> js_error option \<times> adapter \<times> 'w" where
  "mssql_disconnect D a w =
     (if pool a then
        (case mssql_pool_close D w of
           (Some e, w1) \<Rightarrow> (Some (Error (''MSSQL disconnection failed: '' @ e)), a, w1)
         | (None, w1) \<Rightarrow> (None, a\<lparr>pool := False, connected := False\<rparr>, w1))
      else (None, a\<lparr>connected := False\<rparr>, w))"

definition mysql_connect :: "'w drivers \<Rightarrow> adapter \<Rightarrow> 'w \<Rightarrow> js_error option \<times> adapter \<times> 'w" where
  "mysql_connect D a w =
     (case mysql_createConnection D (config a) w of
        (Some e, w1) \<Rightarrow>
          (Some (Error (''MySQL connection failed: '' @ e)), a\<lparr>connected := False\<rparr>, w1)
      | (None, w1) \<Rightarrow> (None, a\<lparr>pool := True, connected := True\<rparr>, w1))"

definition mysql_disconnect :: "'w drivers \<Rightarrow> adapter \<Rightarrow> 'w \<Rightarrow> js_error option \<times> adapter \<times> 'w" where
  "mysql_disconnect D a w =
     (if pool a then
        (case mysql_connection_end D w of
           (Some e, w1) \<Rightarrow> (Some (Error (''MySQL disconnection failed: '' @ e)), a, w1)
         | (None, w1) \<Rightarrow> (None, a\<lparr>pool := False, connected := False\<rparr>, w1))
      else (None, a\<lparr>connected := False\<rparr>, w))"

definition postgresql_connect :: "'w drivers \<Rightarrow> adapter \<Rightarrow> 'w \<Rightarrow> js_error option \<times> adapter \<times> 'w" where
  "postgresql_connect D a w =
     (case pg_new_Pool D (config a) w of
        (Some e, w1) \<Rightarrow>
          (Some (Error (''PostgreSQL connection failed: '' @ e)), a\<lparr>connected := False\<rparr>, w1)
      | (None, w1) \<Rightarrow> (None, a\<lparr>pool := True, connected := True\<rparr>, w1))"

definition postgresql_disconnect :: "'w drivers \<Rightarrow> adapter \<Rightarrow> 'w \<Rightarrow> js_error option \<times> adapter \<times> 'w" where
  "postgresql_disconnect D a w =
     (if pool a then
        (case pg_pool_end D w of
           (Some e, w1) \<Rightarrow> (Some (Error (''PostgreSQL disconnection failed: '' @ e)), a, w1)
         | (None, w1) \<Rightarrow> (None, a\<lparr>pool := False, connected := False\<rparr>, w1))
      else (None, a\<lparr>connected := False\<rparr>, w))"

text \<open>The virtual calls \<^verbatim>\<open>adapter.connect()\<close> and \<^verbatim>\<open>adapter.disconnect()\<close>.\<close>

definition adapter_connect :: "'w drivers \<Rightarrow> adapter \<Rightarrow> 'w \<Rightarrow> js_error option \<times> adapter \<times> 'w" where
  "adapter_connect D a w =
     (case dbType a of
        mssql \<Rightarrow> mssql_connect D a w
      | mysql \<Rightarrow> mysql_connect D a w
      | postgresql \<Rightarrow> postgresql_connect D a w)"

definition adapter_disconnect :: "'w drivers \<Rightarrow> adapter \<Rightarrow> 'w \<Rightarrow> js_error option \<times> adapter \<times> 'w" where
  "adapter_disconnect D a w =
     (case dbType a of
        mssql \<Rightarrow> mssql_disconnect D a w
      | mysql \<Rightarrow> mysql_disconnect D a w
      | postgresql \<Rightarrow> postgresql_disconnect D a w)"

subsection \<open>executeQuery\<close>

text \<open>The result object of the \<^verbatim>\<open>catch\<close> block, the same in the three adapters.\<close>

definition failed_result :: "string \<Rightarrow> int \<Rightarrow> QueryResult" where
  "failed_result e t =
     \<lparr>success = False, data = None, recordset = None, rowsAffected = 0, returnValue = None,
      error = Some e, executionTime = t\<rparr>"

text \<open>
  \<^verbatim>\<open>MSSQLAdapter.executeQuery\<close>.  \<open>mssql_request_query\<close> is the driver part of the
  \<^verbatim>\<open>try\<close> block: \<^verbatim>\<open>pool.request()\<close>, the timeout, the \<^verbatim>\<open>input\<close> calls and
  \<^verbatim>\<open>request.query(query)\<close>.
\<close>

definition mssql_executeQuery ::
  "'w drivers \<Rightarrow> adapter \<Rightarrow> string \<Rightarrow> QueryOptions option \<Rightarrow> 'w \<Rightarrow> (js_error + QueryResult) \<times> 'w" where
  "mssql_executeQuery D a query options w =
     (if \<not> pool a then (Inl (Error ''Not connected to database.''), w)
      else
        (let startTime = Date_now D w in
         case mssql_request_query D query options w of
           (Fulfilled result, w1) \<Rightarrow>
             (let executionTime = Date_now D w1 - startTime;
                  rowsAffected =
                    (case mssql_rowsAffected result of
                       RowsArray vals \<Rightarrow> foldl (\<lambda>sum val. sum + val) 0 vals
                     | RowsNumber n \<Rightarrow> n
                     | RowsUndefined \<Rightarrow> 0)
              in (Inr \<lparr>success = True, data = mssql_recordset result,
                       recordset = mssql_recordset result, rowsAffected = rowsAffected,
                       returnValue = mssql_returnValue result, error = None,
                       executionTime = executionTime\<rparr>, w1))
         | (Rejected e, w1) \<Rightarrow> (Inr (failed_result e (Date_now D w1 - startTime)), w1)))"

definition has_parameters :: "QueryOptions option \<Rightarrow> bool" where
  "has_parameters options =
     (case options of
        None \<Rightarrow> False
      | Some opts \<Rightarrow> (case parameters opts of None \<Rightarrow> False | Some ps \<Rightarrow> length ps > 0))"

definition the_parameters :: "QueryOptions option \<Rightarrow> SqlParameter list" where
  "the_parameters options =
     (case options of
        None \<Rightarrow> []
      | Some opts \<Rightarrow> (case parameters opts of None \<Rightarrow> [] | Some ps \<Rightarrow> ps))"

definition mysql_executeQuery ::
  "'w drivers \<Rightarrow> adapter \<Rightarrow> string \<Rightarrow> QueryOptions option \<Rightarrow> 'w \<Rightarrow> (js_error + QueryResult) \<times> 'w" where
  "mysql_executeQuery D a query options w =
     (if \<not> pool a then (Inl (Error ''Not connected to database.''), w)
      else
        (let startTime = Date_now D w in
         case (if has_parameters options
               then mysql_connection_execute D query (the_parameters options) w
               else mysql_connection_query D query w) of
           (Fulfilled result, w1) \<Rightarrow>
             (let executionTime = Date_now D w1 - startTime;
                  rowsAffected =
                    (case result of
                       MyRows rs \<Rightarrow> int (length rs)
                     | MyObject affectedRows insertId \<Rightarrow>
                         (case affectedRows of None \<Rightarrow> 0 | Some n \<Rightarrow> n)
                     | MyOther \<Rightarrow> 0);
                  recordset =
                    (case result of
                       MyRows rs \<Rightarrow> Some rs
                     | MyObject affectedRows insertId \<Rightarrow>
                         (case insertId of
                            None \<Rightarrow> None
                          | Some i \<Rightarrow> Some [[(''insertId'', VNumber i)]])
                     | MyOther \<Rightarrow> None)
              in (Inr \<lparr>success = True, data = recordset, recordset = recordset,
                       rowsAffected = rowsAffected, returnValue = None, error = None,
                       executionTime = executionTime\<rparr>, w1))
         | (Rejected e, w1) \<Rightarrow> (Inr (failed_result e (Date_now D w1 - startTime)), w1)))"

definition postgresql_executeQuery ::
  "'w drivers \<Rightarrow> adapter \<Rightarrow> string \<Rightarrow> QueryOptions option \<Rightarrow> 'w \<Rightarrow> (js_error + QueryResult) \<times> 'w" where
  "postgresql_executeQuery D a query options w =
     (if \<not> pool a then (Inl (Error ''Not connected to database.''), w)
      else
        (let startTime = Date_now D w in
         case (if has_parameters options
               then pg_pool_query D query (Some (the_parameters options)) w
               else pg_pool_query D query None w) of
           (Fulfilled result, w1) \<Rightarrow>
             (let executionTime = Date_now D w1 - startTime
              in (Inr \<lparr>success = True, data = Some (pg_rows result),
                       recordset = Some (pg_rows result),
                       rowsAffected = (case pg_rowCount result of None \<Rightarrow> 0 | Some n \<Rightarrow> n),
                       returnValue = None, error = None, executionTime = executionTime\<rparr>, w1))
         | (Rejected e, w1) \<Rightarrow> (Inr (failed_result e (Date_now D w1 - startTime)), w1)))"

text \<open>The virtual call \<^verbatim>\<open>adapter.executeQuery(query, options)\<close>.\<close>

definition adapter_executeQuery ::
  "'w drivers \<Rightarrow> adapter \<Rightarrow> string \<Rightarrow> QueryOptions option \<Rightarrow> 'w \<Rightarrow> (js_error + QueryResult) \<times> 'w" where
  "adapter_executeQuery D a query options w =
     (case dbType a of
        mssql \<Rightarrow> mssql_executeQuery D a query options w
      | mysql \<Rightarrow> mysql_executeQuery D a query options w
      | postgresql \<Rightarrow> postgresql_executeQuery D a query options w)"

subsection \<open>getTableInfo\<close>

datatype TableType = table | view | system_table

text \<open>\<^verbatim>\<open>ColumnInfo\<close> and \<^verbatim>\<open>TableInfo\<close>.  A field the adapters copy from a driver row
  holds that cell, or \<open>None\<close> where the row has no such cell (\<^verbatim>\<open>undefined\<close>); a list
  the adapters take over from the driver is a list of rows.\<close>

record ColumnInfo =
  col_name :: "sql_value option"
  col_dataType :: "sql_value option"
  col_maxLength :: "sql_value option"
  col_precision :: "sql_value option"
  col_scale :: "sql_value option"
  col_isNullable :: bool
  col_isIdentity :: bool
  col_isPrimaryKey :: bool
  col_defaultValue :: "sql_value option"
  col_ordinalPosition :: "sql_value option"
  col_comment :: "sql_value option"

record TableInfo =
  table_name :: string
  table_schema :: string
  table_type :: TableType
  columns :: "ColumnInfo list"
  primaryKeys :: "sql_value option list"
  foreignKeys :: "row list"
  indexes :: "row list"
  checkConstraints :: "row list option"
  rowCount :: "sql_value option"
  sizeKB :: "sql_value option"

text \<open>Reading a property of a row, JavaScript truthiness of a cell, \<^verbatim>\<open>x || 0\<close>, and
  \<^verbatim>\<open>String.prototype.includes\<close>.\<close>

definition row_get :: "row \<Rightarrow> string \<Rightarrow> sql_value option" where
  "row_get r key = map_of r key"

fun truthy :: "sql_value option \<Rightarrow> bool" where
  "truthy None = False"
| "truthy (Some VNull) = False"
| "truthy (Some (VNumber n)) = (n \<noteq> 0)"
| "truthy (Some (VString str)) = (str \<noteq> [])"
| "truthy (Some (VBoolean b)) = b"

definition or_zero :: "sql_value option \<Rightarrow> sql_value" where
  "or_zero x = (if truthy x then the x else VNumber 0)"

fun string_includes :: "string \<Rightarrow> string \<Rightarrow> bool" where
  "string_includes [] sub = (sub = [])"
| "string_includes (c # cs) sub = (take (length sub) (c # cs) = sub \<or> string_includes cs sub)"

text \<open>\<^verbatim>\<open>result.recordset?.map(f) || []\<close> and \<^verbatim>\<open>result.recordset || []\<close>.\<close>

definition rows_or_empty :: "QueryResult \<Rightarrow> row list" where
  "rows_or_empty result = (case recordset result of None \<Rightarrow> [] | Some rs \<Rightarrow> rs)"

text \<open>\<^verbatim>\<open>result.recordset?.[0]?.key\<close>.\<close>

definition first_row_get :: "QueryResult \<Rightarrow> string \<Rightarrow> sql_value option" where
  "first_row_get result key =
     (case recordset result of
        None \<Rightarrow> None
      | Some rs \<Rightarrow> (case rs of [] \<Rightarrow> None | r # _ \<Rightarrow> row_get r key))"

text \<open>An \<^verbatim>\<open>await\<close> inside a function without its own \<^verbatim>\<open>catch\<close> at that point: a
  rejection ends the rest of the block.\<close>

definition then_try ::
  "(js_error + 'a) \<times> 'w \<Rightarrow> ('a \<Rightarrow> 'w \<Rightarrow> (js_error + 'b) \<times> 'w) \<Rightarrow> (js_error + 'b) \<times> 'w" where
  "then_try m f = (case m of (Inl e, w) \<Rightarrow> (Inl e, w) | (Inr x, w) \<Rightarrow> f x w)"

text \<open>The SQL texts, with runs of white space written as one blank; \<open>quoted\<close> puts a
  text between single quotes, as the template strings do with the table name.\<close>

definition quoted :: "string \<Rightarrow> string" where
  "quoted str = [CHR 0x27] @ str @ [CHR 0x27]"

definition mssql_columnsQuery :: "string \<Rightarrow> string" where
  "mssql_columnsQuery tableName =
     ''SELECT c.COLUMN_NAME as name, c.DATA_TYPE as type, c.CHARACTER_MAXIMUM_LENGTH as maxLength, ''
     @ ''c.NUMERIC_PRECISION as precision, c.NUMERIC_SCALE as scale, c.IS_NULLABLE as isNullable, ''
     @ ''c.COLUMN_DEFAULT as defaultValue, c.ORDINAL_POSITION as ordinalPosition, ''
     @ ''COLUMNPROPERTY(OBJECT_ID(c.TABLE_SCHEMA + '' @ quoted ''.'' @ '' + c.TABLE_NAME), c.COLUMN_NAME, ''
     @ quoted ''IsIdentity'' @ '') as isIdentity, ep.value as columnComment ''
     @ ''FROM INFORMATION_SCHEMA.COLUMNS c LEFT JOIN sys.extended_properties ep ON ''
     @ ''ep.major_id = OBJECT_ID(c.TABLE_SCHEMA + '' @ quoted ''.'' @ '' + c.TABLE_NAME) AND ''
     @ ''ep.minor_id = c.ORDINAL_POSITION AND ep.name = '' @ quoted ''MS_Description''
     @ '' WHERE c.TABLE_NAME = '' @ quoted tableName @ '' ORDER BY c.ORDINAL_POSITION''"

definition mssql_primaryKeysQuery :: "string \<Rightarrow> string" where
  "mssql_primaryKeysQuery tableName =
     ''SELECT COLUMN_NAME as name FROM INFORMATION_SCHEMA.KEY_COLUMN_USAGE WHERE TABLE_NAME = ''
     @ quoted tableName @ '' AND CONSTRAINT_NAME LIKE '' @ quoted ''PK_%''"

definition mssql_foreignKeysQuery :: "string \<Rightarrow> string" where
  "mssql_foreignKeysQuery tableName =
     ''SELECT COLUMN_NAME as name, CONSTRAINT_NAME as constraintName ''
     @ ''FROM INFORMATION_SCHEMA.KEY_COLUMN_USAGE WHERE TABLE_NAME = ''
     @ quoted tableName @ '' AND CONSTRAINT_NAME LIKE '' @ quoted ''FK_%''"

definition mssql_checkConstraintsQuery :: "string \<Rightarrow> string" where
  "mssql_checkConstraintsQuery tableName =
     ''SELECT cc.CONSTRAINT_NAME as name, cc.CHECK_CLAUSE as definition ''
     @ ''FROM INFORMATION_SCHEMA.CHECK_CONSTRAINTS cc ''
     @ ''INNER JOIN INFORMATION_SCHEMA.CONSTRAINT_COLUMN_USAGE ccu ''
     @ ''ON cc.CONSTRAINT_NAME = ccu.CONSTRAINT_NAME WHERE ccu.TABLE_NAME = '' @ quoted tableName"

definition mssql_indexesQuery :: "string \<Rightarrow> string" where
  "mssql_indexesQuery tableName =
     ''SELECT i.name as indexName, i.type_desc as indexType, i.is_unique as isUnique ''
     @ ''FROM sys.indexes i INNER JOIN sys.tables t ON i.object_id = t.object_id WHERE t.name = ''
     @ quoted tableName @ '' AND i.type > 0''"

definition mssql_tableStatsQuery :: "string \<Rightarrow> string" where
  "mssql_tableStatsQuery tableName =
     ''SELECT p.rows as rowCount, (SUM(a.total_pages) * 8) as sizeKB FROM sys.tables t ''
     @ ''INNER JOIN sys.partitions p ON t.object_id = p.object_id ''
     @ ''INNER JOIN sys.allocation_units a ON p.partition_id = a.container_id WHERE t.name = ''
     @ quoted tableName @ '' AND p.index_id IN (0,1) GROUP BY p.rows''"

text \<open>The names of the primary-key rows; \<^verbatim>\<open>primaryKeyNames.has(row.name)\<close> is
  membership in their set.\<close>

definition key_names :: "QueryResult \<Rightarrow> sql_value option list" where
  "key_names result = map (\<lambda>r. row_get r ''name'') (rows_or_empty result)"

definition mssql_column :: "sql_value option list \<Rightarrow> row \<Rightarrow> ColumnInfo" where
  "mssql_column primaryKeyNames r =
     \<lparr>col_name = row_get r ''name'',
      col_dataType = row_get r ''type'',
      col_maxLength = row_get r ''maxLength'',
      col_precision = row_get r ''precision'',
      col_scale = row_get r ''scale'',
      col_isNullable = (row_get r ''isNullable'' = Some (VString ''YES'')),
      col_isIdentity = truthy (row_get r ''isIdentity''),
      col_isPrimaryKey = (row_get r ''name'' \<in> set primaryKeyNames),
      col_defaultValue = row_get r ''defaultValue'',
      col_ordinalPosition = row_get r ''ordinalPosition'',
      col_comment = row_get r ''columnComment''\<rparr>"

text \<open>The object the \<^verbatim>\<open>catch\<close> block of \<^verbatim>\<open>MSSQLAdapter.getTableInfo\<close> returns
  (\<^verbatim>\<open>// Return basic table info on error\<close>).\<close>

definition basic_table_info :: "string \<Rightarrow> TableInfo" where
  "basic_table_info tableName =
     \<lparr>table_name = tableName, table_schema = ''dbo'', table_type = table, columns = [],
      primaryKeys = [], foreignKeys = [], indexes = [], checkConstraints = None,
      rowCount = None, sizeKB = None\<rparr>"

text \<open>The \<^verbatim>\<open>try\<close> block of \<^verbatim>\<open>MSSQLAdapter.getTableInfo\<close>: six statements through the
  adapter's own \<^verbatim>\<open>executeQuery\<close>, then the result object.\<close>

definition mssql_getTableInfo_try ::
  "'w drivers \<Rightarrow> adapter \<Rightarrow> string \<Rightarrow> 'w \<Rightarrow> (js_error + TableInfo) \<times> 'w" where
  "mssql_getTableInfo_try D a tableName w =
     then_try (mssql_executeQuery D a (mssql_columnsQuery tableName) None w)
       (\<lambda>columnsResult w1.
     then_try (mssql_executeQuery D a (mssql_primaryKeysQuery tableName) None w1)
       (\<lambda>primaryKeysResult w2.
     then_try (mssql_executeQuery D a (mssql_foreignKeysQuery tableName) None w2)
       (\<lambda>foreignKeysResult w3.
     then_try (mssql_executeQuery D a (mssql_checkConstraintsQuery tableName) None w3)
       (\<lambda>checkConstraintsResult w4.
     then_try (mssql_executeQuery D a (mssql_indexesQuery tableName) None w4)
       (\<lambda>indexesResult w5.
     then_try (mssql_executeQuery D a (mssql_tableStatsQuery tableName) None w5)
       (\<lambda>tableStatsResult w6.
          (Inr \<lparr>table_name = tableName, table_schema = ''dbo'', table_type = table,
                columns = map (mssql_column (key_names primaryKeysResult))
                            (rows_or_empty columnsResult),
                primaryKeys = key_names primaryKeysResult,
                foreignKeys = rows_or_empty foreignKeysResult,
                indexes = rows_or_empty indexesResult,
                checkConstraints = Some (rows_or_empty checkConstraintsResult),
                rowCount = Some (or_zero (first_row_get tableStatsResult ''rowCount'')),
                sizeKB = Some (or_zero (first_row_get tableStatsResult ''sizeKB''))\<rparr>,
           w6)))))))"

text \<open>\<^verbatim>\<open>MSSQLAdapter.getTableInfo\<close>: whatever the \<^verbatim>\<open>try\<close> block throws is logged
  through the adapter's logger and replaced by the basic table information.\<close>

definition mssql_getTableInfo ::
  "'w drivers \<Rightarrow> adapter \<Rightarrow> string \<Rightarrow> 'w \<Rightarrow> (js_error + TableInfo) \<times> 'w" where
  "mssql_getTableInfo D a tableName w =
     (case mssql_getTableInfo_try D a tableName w of
        (Inr result, w1) \<Rightarrow> (Inr result, w1)
      | (Inl err, w1) \<Rightarrow> (Inr (basic_table_info tableName), w1))"

text \<open>
  \<^verbatim>\<open>row.extra?.includes('auto_increment') || false\<close> (MySQL) and
  \<^verbatim>\<open>row.default_value?.includes('nextval') || false\<close> (PostgreSQL): false for a missing
  or null cell, the substring test for a string, and a \<^verbatim>\<open>TypeError\<close> for a cell of
  another type, which has no \<^verbatim>\<open>includes\<close>.
\<close>

definition cell_includes :: "string \<Rightarrow> sql_value option \<Rightarrow> string \<Rightarrow> js_error + bool" where
  "cell_includes property cell sub =
     (case cell of
        None \<Rightarrow> Inr False
      | Some VNull \<Rightarrow> Inr False
      | Some (VString str) \<Rightarrow> Inr (string_includes str sub)
      | Some other \<Rightarrow> Inl (Error (''row.'' @ property @ ''?.includes is not a function'')))"

text \<open>\<^verbatim>\<open>Array.prototype.map\<close> with a callback that may throw: the first throw ends
  it.\<close>

fun try_map :: "('a \<Rightarrow> js_error + 'b) \<Rightarrow> 'a list \<Rightarrow> js_error + 'b list" where
  "try_map f [] = Inr []"
| "try_map f (x # xs) =
     (case f x of
        Inl e \<Rightarrow> Inl e
      | Inr y \<Rightarrow> (case try_map f xs of Inl e \<Rightarrow> Inl e | Inr ys \<Rightarrow> Inr (y # ys)))"

definition mysql_columnsQuery :: string where
  "mysql_columnsQuery =
     ''SELECT COLUMN_NAME as name, DATA_TYPE as type, CHARACTER_MAXIMUM_LENGTH as maxLength, ''
     @ ''NUMERIC_PRECISION as precision, NUMERIC_SCALE as scale, IS_NULLABLE as isNullable, ''
     @ ''COLUMN_DEFAULT as defaultValue, ORDINAL_POSITION as ordinalPosition, EXTRA as extra ''
     @ ''FROM INFORMATION_SCHEMA.COLUMNS WHERE TABLE_SCHEMA = DATABASE() AND TABLE_NAME = ? ''
     @ ''ORDER BY ORDINAL_POSITION''"

definition mysql_primaryKeysQuery :: string where
  "mysql_primaryKeysQuery =
     ''SELECT COLUMN_NAME as name FROM INFORMATION_SCHEMA.KEY_COLUMN_USAGE ''
     @ ''WHERE TABLE_SCHEMA = DATABASE() AND TABLE_NAME = ? AND CONSTRAINT_NAME = ''
     @ quoted ''PRIMARY''"

definition mysql_foreignKeysQuery :: string where
  "mysql_foreignKeysQuery =
     ''SELECT COLUMN_NAME as name, REFERENCED_TABLE_NAME as referencedTable, ''
     @ ''REFERENCED_COLUMN_NAME as referencedColumn FROM INFORMATION_SCHEMA.KEY_COLUMN_USAGE ''
     @ ''WHERE TABLE_SCHEMA = DATABASE() AND TABLE_NAME = ? AND REFERENCED_TABLE_NAME IS NOT NULL''"

definition mysql_indexesQuery :: string where
  "mysql_indexesQuery =
     ''SELECT DISTINCT INDEX_NAME as name FROM INFORMATION_SCHEMA.STATISTICS ''
     @ ''WHERE TABLE_SCHEMA = DATABASE() AND TABLE_NAME = ? AND INDEX_NAME != '' @ quoted ''PRIMARY''"

definition mysql_column :: "sql_value option list \<Rightarrow> row \<Rightarrow> js_error + ColumnInfo" where
  "mysql_column primaryKeyNames r =
     (case cell_includes ''extra'' (row_get r ''extra'') ''auto_increment'' of
        Inl e \<Rightarrow> Inl e
      | Inr identity \<Rightarrow>
          Inr \<lparr>col_name = row_get r ''name'',
               col_dataType = row_get r ''type'',
               col_maxLength = row_get r ''maxLength'',
               col_precision = row_get r ''precision'',
               col_scale = row_get r ''scale'',
               col_isNullable = (row_get r ''isNullable'' = Some (VString ''YES'')),
               col_isIdentity = identity,
               col_isPrimaryKey = (row_get r ''name'' \<in> set primaryKeyNames),
               col_defaultValue = row_get r ''defaultValue'',
               col_ordinalPosition = row_get r ''ordinalPosition'',
               col_comment = None\<rparr>)"

text \<open>\<^verbatim>\<open>MySQLAdapter.getTableInfo\<close>: four statements with the table name as the bound
  parameter, no \<^verbatim>\<open>catch\<close>.\<close>

definition mysql_getTableInfo ::
  "'w drivers \<Rightarrow> adapter \<Rightarrow> string \<Rightarrow> 'w \<Rightarrow> (js_error + TableInfo) \<times> 'w" where
  "mysql_getTableInfo D a tableName w =
     (let options = Some (parameters_only (Some [PString tableName])) in
     then_try (mysql_executeQuery D a mysql_columnsQuery options w)
       (\<lambda>columnsResult w1.
     then_try (mysql_executeQuery D a mysql_primaryKeysQuery options w1)
       (\<lambda>primaryKeysResult w2.
     then_try (mysql_executeQuery D a mysql_foreignKeysQuery options w2)
       (\<lambda>foreignKeysResult w3.
     then_try (mysql_executeQuery D a mysql_indexesQuery options w3)
       (\<lambda>indexesResult w4.
          (case try_map (mysql_column (key_names primaryKeysResult))
                  (rows_or_empty columnsResult) of
             Inl e \<Rightarrow> (Inl e, w4)
           | Inr cols \<Rightarrow>
               (Inr \<lparr>table_name = tableName, table_schema = database (config a),
                     table_type = table, columns = cols,
                     primaryKeys = key_names primaryKeysResult,
                     foreignKeys = rows_or_empty foreignKeysResult,
                     indexes = rows_or_empty indexesResult,
                     checkConstraints = None, rowCount = None, sizeKB = None\<rparr>,
                w4)))))))"

text \<open>\<^verbatim>\<open>tableName.includes('.') ? tableName.split('.') : ['public', tableName]\<close>,
  destructured into its first two elements.\<close>

definition pg_schema_and_table :: "string \<Rightarrow> string \<times> string" where
  "pg_schema_and_table tableName =
     (if CHR ''.'' \<in> set tableName
      then (takeWhile (\<lambda>c. c \<noteq> CHR ''.'') tableName,
            takeWhile (\<lambda>c. c \<noteq> CHR ''.'') (drop 1 (dropWhile (\<lambda>c. c \<noteq> CHR ''.'') tableName)))
      else (''public'', tableName))"

definition pg_columnsQuery :: string where
  "pg_columnsQuery =
     ''SELECT column_name as name, data_type as type, character_maximum_length as max_length, ''
     @ ''numeric_precision as precision, numeric_scale as scale, is_nullable as is_nullable, ''
     @ ''column_default as default_value, ordinal_position as ordinal_position ''
     @ ''FROM information_schema.columns WHERE table_schema = $1 AND table_name = $2 ''
     @ ''ORDER BY ordinal_position''"

definition pg_primaryKeysQuery :: string where
  "pg_primaryKeysQuery =
     ''SELECT kcu.column_name as name FROM information_schema.table_constraints tc ''
     @ ''JOIN information_schema.key_column_usage kcu ON tc.constraint_name = kcu.constraint_name ''
     @ ''AND tc.table_schema = kcu.table_schema WHERE tc.constraint_type = '' @ quoted ''PRIMARY KEY''
     @ '' AND tc.table_schema = $1 AND tc.table_name = $2''"

definition pg_foreignKeysQuery :: string where
  "pg_foreignKeysQuery =
     ''SELECT kcu.column_name as name, ccu.table_name as referenced_table, ''
     @ ''ccu.column_name as referenced_column FROM information_schema.table_constraints tc ''
     @ ''JOIN information_schema.key_column_usage kcu ON tc.constraint_name = kcu.constraint_name ''
     @ ''AND tc.table_schema = kcu.table_schema ''
     @ ''JOIN information_schema.constraint_column_usage ccu ON ccu.constraint_name = tc.constraint_name ''
     @ ''AND ccu.table_schema = tc.table_schema WHERE tc.constraint_type = '' @ quoted ''FOREIGN KEY''
     @ '' AND tc.table_schema = $1 AND tc.table_name = $2''"

definition pg_indexesQuery :: string where
  "pg_indexesQuery =
     ''SELECT DISTINCT indexname as name FROM pg_indexes WHERE schemaname = $1 ''
     @ ''AND tablename = $2 AND indexname NOT LIKE '' @ quoted ''%_pkey''"

definition postgresql_column :: "sql_value option list \<Rightarrow> row \<Rightarrow> js_error + ColumnInfo" where
  "postgresql_column primaryKeyNames r =
     (case cell_includes ''default_value'' (row_get r ''default_value'') ''nextval'' of
        Inl e \<Rightarrow> Inl e
      | Inr identity \<Rightarrow>
          Inr \<lparr>col_name = row_get r ''name'',
               col_dataType = row_get r ''type'',
               col_maxLength = row_get r ''max_length'',
               col_precision = row_get r ''precision'',
               col_scale = row_get r ''scale'',
               col_isNullable = (row_get r ''is_nullable'' = Some (VString ''YES'')),
               col_isIdentity = identity,
               col_isPrimaryKey = (row_get r ''name'' \<in> set primaryKeyNames),
               col_defaultValue = row_get r ''default_value'',
               col_ordinalPosition = row_get r ''ordinal_position'',
               col_comment = None\<rparr>)"

text \<open>\<^verbatim>\<open>PostgreSQLAdapter.getTableInfo\<close>: four statements with the schema and the
  table as bound parameters, no \<^verbatim>\<open>catch\<close>.\<close>

definition postgresql_getTableInfo ::
  "'w drivers \<Rightarrow> adapter \<Rightarrow> string \<Rightarrow> 'w \<Rightarrow> (js_error + TableInfo) \<times> 'w" where
  "postgresql_getTableInfo D a tableName w =
     (let schema_table = pg_schema_and_table tableName;
          options = Some (parameters_only
                      (Some [PString (fst schema_table), PString (snd schema_table)])) in
     then_try (postgresql_executeQuery D a pg_columnsQuery options w)
       (\<lambda>columnsResult w1.
     then_try (postgresql_executeQuery D a pg_primaryKeysQuery options w1)
       (\<lambda>primaryKeysResult w2.
     then_try (postgresql_executeQuery D a pg_foreignKeysQuery options w2)
       (\<lambda>foreignKeysResult w3.
     then_try (postgresql_executeQuery D a pg_indexesQuery options w3)
       (\<lambda>indexesResult w4.
          (case try_map (postgresql_column (key_names primaryKeysResult))
                  (rows_or_empty columnsResult) of
             Inl e \<Rightarrow> (Inl e, w4)
           | Inr cols \<Rightarrow>
               (Inr \<lparr>table_name = tableName, table_schema = fst schema_table,
                     table_type = table, columns = cols,
                     primaryKeys = key_names primaryKeysResult,
                     foreignKeys = rows_or_empty foreignKeysResult,
                     indexes = rows_or_empty indexesResult,
                     checkConstraints = None, rowCount = None, sizeKB = None\<rparr>,
                w4)))))))"

text \<open>The virtual call \<^verbatim>\<open>adapter.getTableInfo(tableName)\<close>.\<close>

definition adapter_getTableInfo ::
  "'w drivers \<Rightarrow> adapter \<Rightarrow> string \<Rightarrow> 'w \<Rightarrow> (js_error + TableInfo) \<times> 'w" where
  "adapter_getTableInfo D a tableName w =
     (case dbType a of
        mssql \<Rightarrow> mssql_getTableInfo D a tableName w
      | mysql \<Rightarrow> mysql_getTableInfo D a tableName w
      | postgresql \<Rightarrow> postgresql_getTableInfo D a tableName w)"

section \<open>DatabaseConnectionManager (database/connection/connection.manager.ts)\<close>

text \<open>
  \<open>connections\<close> is a JavaScript \<^verbatim>\<open>Map\<close>: an association list in insertion order,
  where \<^verbatim>\<open>set\<close> replaces the value of a key in place or appends a new key
  (\<open>AList.update\<close>), \<^verbatim>\<open>delete\<close> removes the key (\<open>AList.delete\<close>) and
  \<^verbatim>\<open>keys()\<close> lists the keys in insertion order.  An adapter is an object the map
  refers to: what \<^verbatim>\<open>connect\<close> and \<^verbatim>\<open>disconnect\<close> change in it is written back
  under its key.  The manager's calls of the logger change nothing the manager reads and
  are left out.
\<close>

record ConnectionManager =
  connections :: "(string \<times> adapter) list"
  currentConnection :: "string option"

definition new_ConnectionManager :: ConnectionManager where
  "new_ConnectionManager = \<lparr>connections = [], currentConnection = None\<rparr>"

text \<open>\<^verbatim>\<open>!this.currentConnection\<close>: \<^verbatim>\<open>null\<close> and the empty string are falsy.\<close>

definition falsy :: "string option \<Rightarrow> bool" where
  "falsy c = (case c of None \<Rightarrow> True | Some str \<Rightarrow> str = [])"

text \<open>The \<^verbatim>\<open>switch (dbType)\<close> of \<^verbatim>\<open>createConnection\<close>; the argument is the string
  the caller passed, \<open>None\<close> is the \<^verbatim>\<open>default\<close> branch.\<close>

definition adapter_for :: "string \<Rightarrow> DatabaseConfig \<Rightarrow> adapter option" where
  "adapter_for dbTypeStr dbConfig =
     (if dbTypeStr = ''mssql'' then Some (new_adapter mssql dbConfig)
      else if dbTypeStr = ''mysql'' then Some (new_adapter mysql dbConfig)
      else if dbTypeStr = ''postgresql'' then Some (new_adapter postgresql dbConfig)
      else None)"

definition createConnection ::
  "'w drivers \<Rightarrow> ConnectionManager \<Rightarrow> string \<Rightarrow> DatabaseConfig \<Rightarrow> string \<Rightarrow> 'w
     \<Rightarrow> (js_error + adapter) \<times> ConnectionManager \<times> 'w" where
  "createConnection D m connectionId dbConfig dbTypeStr w =
     (case adapter_for dbTypeStr dbConfig of
        None \<Rightarrow> (Inl (Error (''Unsupported database type: '' @ dbTypeStr)), m, w)
      | Some a0 \<Rightarrow>
          (case adapter_connect D a0 w of
             (Some e, a1, w1) \<Rightarrow> (Inl e, m, w1)
           | (None, a1, w1) \<Rightarrow>
               (let m1 = m\<lparr>connections := AList.update connectionId a1 (connections m)\<rparr>;
                    m2 = (if falsy (currentConnection m1)
                          then m1\<lparr>currentConnection := Some connectionId\<rparr> else m1)
                in (Inr a1, m2, w1))))"

definition getCurrentConnection :: "ConnectionManager \<Rightarrow> js_error + adapter" where
  "getCurrentConnection m =
     (case currentConnection m of
        None \<Rightarrow> Inl (Error ''No active database connection.'')
      | Some cid \<Rightarrow>
          if cid = [] then Inl (Error ''No active database connection.'')
          else
            (case map_of (connections m) cid of
               None \<Rightarrow> Inl (Error ''Current connection not found.'')
             | Some connection \<Rightarrow> Inr connection))"

definition getConnection :: "ConnectionManager \<Rightarrow> string \<Rightarrow> js_error + adapter" where
  "getConnection m connectionId =
     (case map_of (connections m) connectionId of
        None \<Rightarrow> Inl (Error (''Connection not found: '' @ connectionId))
      | Some connection \<Rightarrow> Inr connection)"

definition switchConnection :: "ConnectionManager \<Rightarrow> string \<Rightarrow> js_error + ConnectionManager" where
  "switchConnection m connectionId =
     (if map_of (connections m) connectionId = None
      then Inl (Error (''Connection not found: '' @ connectionId))
      else Inr (m\<lparr>currentConnection := Some connectionId\<rparr>))"

definition removeConnection ::
  "'w drivers \<Rightarrow> ConnectionManager \<Rightarrow> string \<Rightarrow> 'w \<Rightarrow> js_error option \<times> ConnectionManager \<times> 'w" where
  "removeConnection D m connectionId w =
     (case map_of (connections m) connectionId of
        None \<Rightarrow> (Some (Error (''Connection not found: '' @ connectionId)), m, w)
      | Some connection \<Rightarrow>
          (case adapter_disconnect D connection w of
             (Some e, connection', w1) \<Rightarrow>
               (Some e, m\<lparr>connections := AList.update connectionId connection' (connections m)\<rparr>, w1)
           | (None, connection', w1) \<Rightarrow>
               (let m1 = m\<lparr>connections := AList.delete connectionId (connections m)\<rparr>;
                    m2 =
                      (if currentConnection m1 = Some connectionId then
                         (let remainingConnections = map fst (connections m1)
                          in m1\<lparr>currentConnection :=
                                 (if length remainingConnections > 0
                                  then Some (remainingConnections ! 0) else None)\<rparr>)
                       else m1)
                in (None, m2, w1))))"

text \<open>
  \<^verbatim>\<open>disconnectAll\<close> starts one \<^verbatim>\<open>removeConnection\<close> per key of the map as it is at
  the call, swallows each failure, and clears the current connection at the end.  The
  removals are run here one after the other in key order.
\<close>

fun disconnectAll_each ::
  "'w drivers \<Rightarrow> ConnectionManager \<Rightarrow> string list \<Rightarrow> 'w \<Rightarrow> ConnectionManager \<times> 'w" where
  "disconnectAll_each D m [] w = (m, w)"
| "disconnectAll_each D m (connectionId # ids) w =
     (case removeConnection D m connectionId w of
        (_, m1, w1) \<Rightarrow> disconnectAll_each D m1 ids w1)"

definition disconnectAll :: "'w drivers \<Rightarrow> ConnectionManager \<Rightarrow> 'w \<Rightarrow> ConnectionManager \<times> 'w" where
  "disconnectAll D m w =
     (case disconnectAll_each D m (map fst (connections m)) w of
        (m1, w1) \<Rightarrow> (m1\<lparr>currentConnection := None\<rparr>, w1))"

text \<open>\<^verbatim>\<open>autoReconnect(connectionId?)\<close>: every failure is caught and turned into
  \<^verbatim>\<open>false\<close>.  \<^verbatim>\<open>connectionId || this.currentConnection\<close> takes the current
  connection when the argument is missing or empty.\<close>

definition autoReconnect ::
  "'w drivers \<Rightarrow> ConnectionManager \<Rightarrow> string option \<Rightarrow> 'w \<Rightarrow> bool \<times> ConnectionManager \<times> 'w" where
  "autoReconnect D m connectionId w =
     (let targetConnectionId = (if falsy connectionId then currentConnection m else connectionId)
      in if falsy targetConnectionId then (False, m, w)
         else
           (let target = the targetConnectionId in
            case map_of (connections m) target of
              None \<Rightarrow> (False, m, w)
            | Some connection \<Rightarrow>
                (case adapter_disconnect D connection w of
                   (Some e, c1, w1) \<Rightarrow>
                     (False, m\<lparr>connections := AList.update target c1 (connections m)\<rparr>, w1)
                 | (None, c1, w1) \<Rightarrow>
                     (case adapter_connect D c1 w1 of
                        (Some e, c2, w2) \<Rightarrow>
                          (False, m\<lparr>connections := AList.update target c2 (connections m)\<rparr>, w2)
                      | (None, c2, w2) \<Rightarrow>
                          (True, m\<lparr>connections := AList.update target c2 (connections m)\<rparr>, w2)))))"

text \<open>The invariant of the specification: the current connection is unset or a key of
  the registry.\<close>

definition manager_inv :: "ConnectionManager \<Rightarrow> bool" where
  "manager_inv m =
     (case currentConnection m of
        None \<Rightarrow> True
      | Some cid \<Rightarrow> cid \<in> set (map fst (connections m)))"

section \<open>The services' view of the connection manager\<close>

text \<open>
  \<^verbatim>\<open>QueryService\<close> and \<^verbatim>\<open>SchemaService\<close> receive the connection manager and the
  logger through their constructors.  What they use of the manager is the call chain
  \<^verbatim>\<open>this.dbManager.getCurrentConnection().executeQuery(query, options)\<close> (for the
  schema service, \<^verbatim>\<open>.getTableInfo(tableName)\<close>), and of the clock
  \<^verbatim>\<open>Date.now()\<close>.  These are the fields of \<open>query_access\<close> and \<open>schema_access\<close>; \<open>Inl e\<close> is a call that
  threw \<open>e\<close>, whether \<^verbatim>\<open>getCurrentConnection\<close> or the adapter threw it.  The services are
  defined for every such collaborator (a test double included); \<open>manager_access\<close> below
  is the one made of the repository's manager and adapters.
\<close>

datatype LogLevel = LogDebug | LogInfo | LogWarn | LogError

text \<open>The calls made to the logger, in order: level and message (the metadata argument
  is left out).\<close>

record logger_client =
  logged :: "(LogLevel \<times> string) list"

definition log_info :: "'a logger_client_scheme \<Rightarrow> string \<Rightarrow> 'a logger_client_scheme" where
  "log_info s msg = s\<lparr>logged := logged s @ [(LogInfo, msg)]\<rparr>"

definition log_error :: "'a logger_client_scheme \<Rightarrow> string \<Rightarrow> 'a logger_client_scheme" where
  "log_error s msg = s\<lparr>logged := logged s @ [(LogError, msg)]\<rparr>"

text \<open>\<^verbatim>\<open>Logger.logQuery(query, executionTime, success)\<close>.\<close>

definition logQuery :: "'a logger_client_scheme \<Rightarrow> string \<Rightarrow> int \<Rightarrow> bool \<Rightarrow> 'a logger_client_scheme" where
  "logQuery s q t ok =
     (if ok then log_info s ''Query execution successful''
      else log_error s ''Query execution failed'')"

section \<open>QueryService (services/query.service.ts)\<close>

record history_entry =
  query_h :: string
  timestamp_h :: date
  executionTime_h :: int
  success_h :: bool
  error_h :: "string option"

record QueryService = logger_client +
  queryHistory :: "history_entry list"

definition new_QueryService :: QueryService where
  "new_QueryService = \<lparr>logged = [], queryHistory = []\<rparr>"

record 'w query_access =
  clock :: "'w \<Rightarrow> date"
  executeQuery_current ::
    "string \<Rightarrow> QueryOptions option \<Rightarrow> 'w \<Rightarrow> (js_error + QueryResult) \<times> 'w"

text \<open>
  \<^verbatim>\<open>executeQuery(query, options)\<close>.  The \<^verbatim>\<open>try\<close> branch is taken when the call chain
  returns, whatever the \<^verbatim>\<open>success\<close> field of the result, and records
  \<^verbatim>\<open>success: true\<close>; the \<^verbatim>\<open>catch\<close> branch records the message of what was thrown
  and throws it again.
\<close>

definition executeQuery ::
  "'w query_access \<Rightarrow> QueryService \<Rightarrow> string \<Rightarrow> QueryOptions option \<Rightarrow> 'w
     \<Rightarrow> (js_error + QueryResult) \<times> QueryService \<times> 'w" where
  "executeQuery A s q options w =
     (let startTime = clock A w;
          s1 = log_info s ''Starting query execution''
      in case executeQuery_current A q options w of
           (Inr result, w1) \<Rightarrow>
             (let executionTime = clock A w1 - startTime;
                  s2 = s1\<lparr>queryHistory := queryHistory s1 @
                         [\<lparr>query_h = q, timestamp_h = clock A w1, executionTime_h = executionTime,
                           success_h = True, error_h = None\<rparr>]\<rparr>;
                  s3 = logQuery s2 q executionTime True
              in (Inr result, s3, w1))
         | (Inl err, w1) \<Rightarrow>
             (let executionTime = clock A w1 - startTime;
                  s2 = log_error s1 ''Query execution failed'';
                  s3 = s2\<lparr>queryHistory := queryHistory s2 @
                         [\<lparr>query_h = q, timestamp_h = clock A w1, executionTime_h = executionTime,
                           success_h = False, error_h = Some (error_message err)\<rparr>]\<rparr>
              in (Inl err, s3, w1)))"

text \<open>\<^verbatim>\<open>executeBatch(queries)\<close>: the \<^verbatim>\<open>for\<close> loop, left by the first
  \<^verbatim>\<open>executeQuery\<close> that throws.\<close>

fun executeBatch_loop ::
  "'w query_access \<Rightarrow> QueryService \<Rightarrow> string list \<Rightarrow> QueryResult list \<Rightarrow> 'w
     \<Rightarrow> (js_error + QueryResult list) \<times> QueryService \<times> 'w" where
  "executeBatch_loop A s [] results w = (Inr results, s, w)"
| "executeBatch_loop A s (q # qs) results w =
     (case executeQuery A s q None w of
        (Inl err, s1, w1) \<Rightarrow> (Inl err, s1, w1)
      | (Inr result, s1, w1) \<Rightarrow> executeBatch_loop A s1 qs (results @ [result]) w1)"

definition executeBatch ::
  "'w query_access \<Rightarrow> QueryService \<Rightarrow> string list \<Rightarrow> 'w
     \<Rightarrow> (js_error + QueryResult list) \<times> QueryService \<times> 'w" where
  "executeBatch A s queries w =
     (case executeBatch_loop A (log_info s ''Starting batch query execution'') queries [] w of
        (Inr results, s1, w1) \<Rightarrow> (Inr results, log_info s1 ''Batch query execution completed'', w1)
      | (Inl err, s1, w1) \<Rightarrow> (Inl err, log_error s1 ''Batch query execution failed'', w1))"

text \<open>A statement of a transaction: \<^verbatim>\<open>{ query, parameters? }\<close>; the options
  object built from it is \<open>parameters_only\<close>.\<close>

type_synonym statement = "string \<times> SqlParameter list option"

text \<open>The text of \<^verbatim>\<open>`Transaction query failed: ${result.error}`\<close>.\<close>

definition transaction_query_failed :: "QueryResult \<Rightarrow> js_error" where
  "transaction_query_failed result =
     Error (''Transaction query failed: '' @
            (case error result of None \<Rightarrow> ''undefined'' | Some e \<Rightarrow> e))"

fun transaction_loop ::
  "'w query_access \<Rightarrow> QueryService \<Rightarrow> statement list \<Rightarrow> QueryResult list \<Rightarrow> 'w
     \<Rightarrow> (js_error + QueryResult list) \<times> QueryService \<times> 'w" where
  "transaction_loop A s [] results w = (Inr results, s, w)"
| "transaction_loop A s ((q, ps) # rest) results w =
     (case executeQuery A s q (Some (parameters_only ps)) w of
        (Inl err, s1, w1) \<Rightarrow> (Inl err, s1, w1)
      | (Inr result, s1, w1) \<Rightarrow>
          if \<not> success result then (Inl (transaction_query_failed result), s1, w1)
          else transaction_loop A s1 rest (results @ [result]) w1)"

text \<open>The \<^verbatim>\<open>try\<close> block of \<^verbatim>\<open>executeInTransaction\<close>.  The results of the BEGIN and
  COMMIT calls are not inspected.\<close>

definition transaction_try ::
  "'w query_access \<Rightarrow> QueryService \<Rightarrow> statement list \<Rightarrow> 'w
     \<Rightarrow> (js_error + QueryResult list) \<times> QueryService \<times> 'w" where
  "transaction_try A s queries w =
     (case executeQuery A s ''BEGIN TRANSACTION'' None w of
        (Inl err, s1, w1) \<Rightarrow> (Inl err, s1, w1)
      | (Inr begun, s1, w1) \<Rightarrow>
          (case transaction_loop A s1 queries [] w1 of
             (Inl err, s2, w2) \<Rightarrow> (Inl err, s2, w2)
           | (Inr results, s2, w2) \<Rightarrow>
               (case executeQuery A s2 ''COMMIT TRANSACTION'' None w2 of
                  (Inl err, s3, w3) \<Rightarrow> (Inl err, s3, w3)
                | (Inr committed, s3, w3) \<Rightarrow>
                    (Inr results, log_info s3 ''Transaction completed successfully'', w3))))"

text \<open>The \<^verbatim>\<open>catch\<close> block: the rollback, whose own failure is logged and dropped, and
  the re-throw of the caught error.\<close>

definition executeInTransaction ::
  "'w query_access \<Rightarrow> QueryService \<Rightarrow> statement list \<Rightarrow> 'w
     \<Rightarrow> (js_error + QueryResult list) \<times> QueryService \<times> 'w" where
  "executeInTransaction A s queries w =
     (case transaction_try A (log_info s ''Transaction started'') queries w of
        (Inr results, s1, w1) \<Rightarrow> (Inr results, s1, w1)
      | (Inl err, s1, w1) \<Rightarrow>
          (case executeQuery A s1 ''ROLLBACK TRANSACTION'' None w1 of
             (Inr rolledBack, s2, w2) \<Rightarrow>
               (Inl err,
                log_error (log_info s2 ''Transaction rollback completed'') ''Transaction failed'',
                w2)
           | (Inl rollbackError, s2, w2) \<Rightarrow>
               (Inl err,
                log_error (log_error s2 ''Transaction rollback failed'') ''Transaction failed'',
                w2)))"

text \<open>\<^verbatim>\<open>getQueryHistory(limit?)\<close>: the reversed copy, cut by \<^verbatim>\<open>slice(0, limit)\<close>
  when the limit is a non-zero number (a negative limit counts from the end).\<close>

definition getQueryHistory :: "QueryService \<Rightarrow> int option \<Rightarrow> history_entry list" where
  "getQueryHistory s limit =
     (let history = rev (queryHistory s)
      in case limit of
           None \<Rightarrow> history
         | Some n \<Rightarrow>
             if n = 0 then history
             else if n > 0 then take (nat n) history
             else take (nat (int (length history) + n)) history)"

definition clearHistory :: "QueryService \<Rightarrow> QueryService" where
  "clearHistory s = log_info (s\<lparr>queryHistory := []\<rparr>) ''Query history cleared''"

text \<open>\<^verbatim>\<open>Math.round\<close> on an exact real: the nearest integer, halves upwards.\<close>

definition Math_round :: "real \<Rightarrow> int" where
  "Math_round x = \<lfloor>x + 1 / 2\<rfloor>"

text \<open>\<^verbatim>\<open>q.substring(0, 100) + (q.length > 100 ? "..." : "")\<close>.\<close>

definition preview :: "string \<Rightarrow> string" where
  "preview q = take 100 q @ (if length q > 100 then ''...'' else [])"

record query_summary =
  summary_query :: string
  summary_executionTime :: int
  summary_timestamp :: date

record query_stats =
  totalQueries :: nat
  successfulQueries :: nat
  failedQueries :: nat
  successRate :: int
  averageExecutionTime :: int
  slowestQuery :: query_summary
  fastestQuery :: query_summary

text \<open>
  \<^verbatim>\<open>getQueryStats()\<close>.  The two \<^verbatim>\<open>reduce\<close> calls start from
  \<^verbatim>\<open>this.queryHistory[0] || { executionTime: 0, query: "", timestamp: new Date() }\<close> and
  run over the whole history; only the three fields read afterwards are kept of the
  entry they return.  \<open>today\<close> is the value of \<^verbatim>\<open>new Date()\<close>.
\<close>

definition summary_of :: "history_entry \<Rightarrow> query_summary" where
  "summary_of h =
     \<lparr>summary_query = query_h h, summary_executionTime = executionTime_h h,
      summary_timestamp = timestamp_h h\<rparr>"

definition initial_summary :: "history_entry list \<Rightarrow> date \<Rightarrow> query_summary" where
  "initial_summary history today =
     (case history of
        [] \<Rightarrow> \<lparr>summary_query = [], summary_executionTime = 0, summary_timestamp = today\<rparr>
      | h # _ \<Rightarrow> summary_of h)"

definition getQueryStats :: "QueryService \<Rightarrow> date \<Rightarrow> query_stats" where
  "getQueryStats s today =
     (let totalQueries = length (queryHistory s);
          successfulQueries = length (filter success_h (queryHistory s));
          failedQueries = totalQueries - successfulQueries;
          executionTimes = map executionTime_h (queryHistory s);
          averageExecutionTime =
            (if length executionTimes > 0
             then Math_round (real_of_int (foldl (\<lambda>sum t. sum + t) 0 executionTimes)
                              / real (length executionTimes))
             else 0);
          slowest =
            foldl (\<lambda>slowest current.
                     if executionTime_h current > summary_executionTime slowest
                     then summary_of current else slowest)
                  (initial_summary (queryHistory s) today) (queryHistory s);
          fastest =
            foldl (\<lambda>fastest current.
                     if executionTime_h current < summary_executionTime fastest
                     then summary_of current else fastest)
                  (initial_summary (queryHistory s) today) (queryHistory s)
      in \<lparr>totalQueries = totalQueries,
          successfulQueries = successfulQueries,
          failedQueries = failedQueries,
          successRate =
            (if totalQueries > 0
             then Math_round (real successfulQueries / real totalQueries * 100)
             else 0),
          averageExecutionTime = averageExecutionTime,
          slowestQuery = slowest\<lparr>summary_query := preview (summary_query slowest)\<rparr>,
          fastestQuery = fastest\<lparr>summary_query := preview (summary_query fastest)\<rparr>\<rparr>)"

subsection \<open>What a run of the service attempted and what each statement yields\<close>

text \<open>
  Every \<^verbatim>\<open>executeQuery\<close> call appends one entry to the history, so the statements a
  run attempted are the texts of the entries it added.  \<open>replies\<close> lists what the
  statements of a list yield when they are sent to the current connection one after the
  other, \<open>world_after\<close> is the world behind them; a statement fails when the call throws
  or returns \<^verbatim>\<open>success = false\<close>, and \<open>statement_error\<close> is the error
  \<^verbatim>\<open>executeInTransaction\<close> has in hand at such a statement.
\<close>

definition statement_ok :: "js_error + QueryResult \<Rightarrow> bool" where
  "statement_ok r = (case r of Inl e \<Rightarrow> False | Inr result \<Rightarrow> success result)"

definition statement_error :: "js_error + QueryResult \<Rightarrow> js_error" where
  "statement_error r = (case r of Inl e \<Rightarrow> e | Inr result \<Rightarrow> transaction_query_failed result)"

text \<open>The history entry a call of \<^verbatim>\<open>executeQuery\<close> appends, from the outcome of
  the call chain.\<close>

definition recorded_entry ::
  "'w query_access \<Rightarrow> string \<Rightarrow> QueryOptions option \<Rightarrow> 'w \<Rightarrow> history_entry" where
  "recorded_entry A q options w =
     (case executeQuery_current A q options w of
        (r, w1) \<Rightarrow>
          \<lparr>query_h = q, timestamp_h = clock A w1, executionTime_h = clock A w1 - clock A w,
           success_h = \<not> isl r,
           error_h = (case r of Inl e \<Rightarrow> Some (error_message e) | Inr result \<Rightarrow> None)\<rparr>)"

definition first_failure :: "(js_error + QueryResult) list \<Rightarrow> nat \<Rightarrow> bool" where
  "first_failure rs k =
     (k < length rs \<and> list_all statement_ok (take k rs) \<and> \<not> statement_ok (rs ! k))"

definition attempted :: "QueryService \<Rightarrow> QueryService \<Rightarrow> string list" where
  "attempted s s' = map query_h (drop (length (queryHistory s)) (queryHistory s'))"

definition newly_logged :: "QueryService \<Rightarrow> QueryService \<Rightarrow> (LogLevel \<times> string) list" where
  "newly_logged s s' = drop (length (logged s)) (logged s')"

fun replies :: "'w query_access \<Rightarrow> statement list \<Rightarrow> 'w \<Rightarrow> (js_error + QueryResult) list" where
  "replies A [] w = []"
| "replies A ((q, ps) # rest) w =
     (case executeQuery_current A q (Some (parameters_only ps)) w of
        (r, w1) \<Rightarrow> r # replies A rest w1)"

fun world_after :: "'w query_access \<Rightarrow> statement list \<Rightarrow> 'w \<Rightarrow> 'w" where
  "world_after A [] w = w"
| "world_after A ((q, ps) # rest) w =
     world_after A rest (snd (executeQuery_current A q (Some (parameters_only ps)) w))"

text \<open>The collaborator made of the repository's own manager and adapters: the world is
  the manager together with the drivers' world.\<close>

definition manager_access :: "'w drivers \<Rightarrow> (ConnectionManager \<times> 'w) query_access" where
  "manager_access D =
     \<lparr>clock = (\<lambda>(m, w). Date_now D w),
      executeQuery_current =
        (\<lambda>q options (m, w).
           case getCurrentConnection m of
             Inl e \<Rightarrow> (Inl e, (m, w))
           | Inr connection \<Rightarrow>
               (case adapter_executeQuery D connection q options w of
                  (r, w1) \<Rightarrow> (r, (m, w1))))\<rparr>"

section \<open>SchemaService (services/schema.service.ts)\<close>

text \<open>
  What the schema service uses of the manager:
  \<^verbatim>\<open>this.dbManager.getCurrentConnection().getTableInfo(tableName)\<close>, next to the clock.
\<close>

record 'w schema_access = "'w query_access" +
  getTableInfo_current :: "string \<Rightarrow> 'w \<Rightarrow> (js_error + TableInfo) \<times> 'w"

text \<open>
  The cache is a \<^verbatim>\<open>Map\<close> from the key to \<^verbatim>\<open>{ data, timestamp }\<close>.  The keys of
  \<^verbatim>\<open>getTableInfo\<close> start with \<^verbatim>\<open>table_\<close>, those of \<^verbatim>\<open>getSchema\<close> and
  \<^verbatim>\<open>getTables\<close> with \<^verbatim>\<open>schema_\<close> and \<^verbatim>\<open>tables_\<close>, so no two of the three methods
  share a key; \<open>isCacheValid\<close> and \<open>updateCache\<close> are written for any kind of data, and the
  service is modelled with the entries of \<^verbatim>\<open>getTableInfo\<close>.
\<close>

record 'v cached =
  cached_data :: 'v
  cached_timestamp :: date

record 'v SchemaService = logger_client +
  schemaCache :: "string \<rightharpoonup> 'v cached"
  cacheExpiration :: int

definition new_SchemaService :: "'v SchemaService" where
  "new_SchemaService = \<lparr>logged = [], schemaCache = Map.empty, cacheExpiration = 5 * 60 * 1000\<rparr>"

text \<open>\<^verbatim>\<open>isCacheValid(key)\<close> at the time \<open>today\<close> that \<^verbatim>\<open>Date.now()\<close> returns: the
  answer and the service after the call, which deletes an expired entry.\<close>

definition isCacheValid :: "'v SchemaService \<Rightarrow> string \<Rightarrow> date \<Rightarrow> bool \<times> 'v SchemaService" where
  "isCacheValid s key today =
     (case schemaCache s key of
        None \<Rightarrow> (False, s)
      | Some c \<Rightarrow>
          (let isExpired = today - cached_timestamp c > cacheExpiration s
           in if isExpired then (False, s\<lparr>schemaCache := (schemaCache s)(key := None)\<rparr>)
              else (True, s)))"

definition updateCache :: "'v SchemaService \<Rightarrow> string \<Rightarrow> 'v \<Rightarrow> date \<Rightarrow> 'v SchemaService" where
  "updateCache s key d today =
     s\<lparr>schemaCache := (schemaCache s)(key \<mapsto> \<lparr>cached_data = d, cached_timestamp = today\<rparr>)\<rparr>"

definition clearCache :: "'v SchemaService \<Rightarrow> 'v SchemaService" where
  "clearCache s = log_info (s\<lparr>schemaCache := Map.empty\<rparr>) ''Schema cache cleared''"

text \<open>\<^verbatim>\<open>getTableInfo(tableName)\<close>.  Reading \<^verbatim>\<open>.data\<close> of a missing entry right after
  \<^verbatim>\<open>isCacheValid\<close> said yes would be a \<^verbatim>\<open>TypeError\<close>; that branch is written out
  although \<open>isCacheValid\<close> never leads to it.\<close>

definition getTableInfo ::
  "'w schema_access \<Rightarrow> TableInfo SchemaService \<Rightarrow> string \<Rightarrow> 'w
     \<Rightarrow> (js_error + TableInfo) \<times> TableInfo SchemaService \<times> 'w" where
  "getTableInfo A s tableName w =
     (let cacheKey = ''table_'' @ tableName in
      case isCacheValid s cacheKey (clock A w) of
        (True, s1) \<Rightarrow>
          (case schemaCache s1 cacheKey of
             Some c \<Rightarrow> (Inr (cached_data c), s1, w)
           | None \<Rightarrow>
               (Inl (Error (''Cannot read properties of undefined (reading '' @ quoted ''data''
                            @ '')'')), s1, w))
      | (False, s1) \<Rightarrow>
          (let s2 = log_info s1 ''Starting table information query'' in
           case getTableInfo_current A tableName w of
             (Inr tableInfo, w1) \<Rightarrow>
               (Inr tableInfo,
                log_info (updateCache s2 cacheKey tableInfo (clock A w1))
                  ''Table information query completed'',
                w1)
           | (Inl err, w1) \<Rightarrow>
               (Inl err, log_error s2 ''Table information query failed'', w1)))"

text \<open>The schema service's collaborator made of the repository's manager and
  adapters.\<close>

definition manager_schema_access :: "'w drivers \<Rightarrow> (ConnectionManager \<times> 'w) schema_access" where
  "manager_schema_access D =
     \<lparr>clock = (\<lambda>(m, w). Date_now D w),
      executeQuery_current = executeQuery_current (manager_access D),
      getTableInfo_current =
        (\<lambda>tableName (m, w).
           case getCurrentConnection m of
             Inl e \<Rightarrow> (Inl e, (m, w))
           | Inr connection \<Rightarrow>
               (case adapter_getTableInfo D connection tableName w of
                  (r, w1) \<Rightarrow> (r, (m, w1))))\<rparr>"

text \<open>What \<^verbatim>\<open>MSSQLAdapter.getTableInfo\<close> builds when none of its six statements
  yields a row, and the driver replies that yield no row.\<close>

definition empty_table_info :: "string \<Rightarrow> TableInfo" where
  "empty_table_info tableName =
     \<lparr>table_name = tableName, table_schema = ''dbo'', table_type = table, columns = [],
      primaryKeys = [], foreignKeys = [], indexes = [], checkConstraints = Some [],
      rowCount = Some (VNumber 0), sizeKB = Some (VNumber 0)\<rparr>"

definition mssql_no_rows :: "mssql_result settled \<Rightarrow> bool" where
  "mssql_no_rows reply =
     (case reply of
        Rejected e \<Rightarrow> True
      | Fulfilled r \<Rightarrow> (case mssql_recordset r of None \<Rightarrow> True | Some rs \<Rightarrow> rs = []))"

text \<open>The six statements of \<^verbatim>\<open>MSSQLAdapter.getTableInfo\<close> in the order it sends them,
  and what the driver replies to the statements of a list sent one after the other.\<close>

definition mssql_metadata_queries :: "string \<Rightarrow> string list" where
  "mssql_metadata_queries tableName =
     [mssql_columnsQuery tableName, mssql_primaryKeysQuery tableName,
      mssql_foreignKeysQuery tableName, mssql_checkConstraintsQuery tableName,
      mssql_indexesQuery tableName, mssql_tableStatsQuery tableName]"

fun mssql_driver_replies :: "'w drivers \<Rightarrow> string list \<Rightarrow> 'w \<Rightarrow> mssql_result settled list" where
  "mssql_driver_replies D [] w = []"
| "mssql_driver_replies D (q # qs) w =
     (case mssql_request_query D q None w of
        (reply, w1) \<Rightarrow> reply # mssql_driver_replies D qs w1)"

section \<open>A concrete world for evaluation\<close>

text \<open>
  A small instance of the driver parameter, on which the model is evaluated: the world is
  a clock in milliseconds, every driver call takes one millisecond, a statement is
  rejected when its text is \<open>''BAD''\<close>, and closing a pool fails when \<open>close_ok\<close> is
  false.
\<close>

definition sample_mssql_result :: mssql_result where
  "sample_mssql_result =
     \<lparr>mssql_recordset = Some [], mssql_rowsAffected = RowsArray [1], mssql_returnValue = None\<rparr>"

definition sample_drivers :: "bool \<Rightarrow> nat drivers" where
  "sample_drivers close_ok =
     \<lparr>Date_now = (\<lambda>w. int w),
      mssql_new_ConnectionPool = (\<lambda>cfg w. (None, w)),
      mssql_pool_connect = (\<lambda>w. (None, Suc w)),
      mssql_pool_close = (\<lambda>w. (if close_ok then None else Some ''socket hang up'', Suc w)),
      mssql_request_query =
        (\<lambda>q opts w. (if q = ''BAD'' then Rejected ''Invalid object name''
                      else Fulfilled sample_mssql_result, Suc w)),
      mysql_createConnection = (\<lambda>cfg w. (None, Suc w)),
      mysql_connection_end = (\<lambda>w. (if close_ok then None else Some ''socket hang up'', Suc w)),
      mysql_connection_execute =
        (\<lambda>q ps w. (if q = ''BAD'' then Rejected ''Unknown table'' else Fulfilled (MyRows []), Suc w)),
      mysql_connection_query =
        (\<lambda>q w. (if q = ''BAD'' then Rejected ''Unknown table'' else Fulfilled (MyRows []), Suc w)),
      pg_new_Pool = (\<lambda>cfg w. (None, w)),
      pg_pool_end = (\<lambda>w. (if close_ok then None else Some ''socket hang up'', Suc w)),
      pg_pool_query =
        (\<lambda>q ps w. (if q = ''BAD'' then Rejected ''relation does not exist''
                    else Fulfilled \<lparr>pg_rows = [], pg_rowCount = Some 0\<rparr>, Suc w))\<rparr>"

text \<open>The same drivers with a connection that is lost at time \<open>t\<close>: from then on the
  MSSQL driver rejects every statement.\<close>

definition lossy_drivers :: "nat \<Rightarrow> nat drivers" where
  "lossy_drivers t =
     (sample_drivers True)
       \<lparr>mssql_request_query :=
          (\<lambda>q opts w. (if t \<le> w then Rejected ''Connection is closed''
                        else Fulfilled sample_mssql_result, Suc w))\<rparr>"

text \<open>The same drivers in front of a database that has one table, \<open>users\<close>, with one
  column: the column statement of that table yields a row, every other statement none.\<close>

definition users_columns :: mssql_result where
  "users_columns =
     \<lparr>mssql_recordset =
        Some [[(''name'', VString ''id''), (''type'', VString ''int''),
               (''isNullable'', VString ''NO''), (''ordinalPosition'', VNumber 1)]],
      mssql_rowsAffected = RowsArray [1], mssql_returnValue = None\<rparr>"

definition populated_drivers :: "nat drivers" where
  "populated_drivers =
     (sample_drivers True)
       \<lparr>mssql_request_query :=
          (\<lambda>q opts w. (Fulfilled (if q = mssql_columnsQuery ''users'' then users_columns
                                   else sample_mssql_result), Suc w))\<rparr>"

definition sample_config :: DatabaseConfig where
  "sample_config =
     \<lparr>host = ''localhost'', port = Some 1433, database = ''test'', user = ''u'',
      password = ''p'', ssl = None\<rparr>"

definition sample_adapter :: "DatabaseType \<Rightarrow> adapter" where
  "sample_adapter t = (new_adapter t sample_config)\<lparr>pool := True, connected := True\<rparr>"

definition sample_manager :: ConnectionManager where
  "sample_manager =
     \<lparr>connections = [(''a'', sample_adapter mssql), (''b'', sample_adapter mysql)],
      currentConnection = Some ''a''\<rparr>"

text \<open>A stand-in for the current connection, as a unit test would inject it: every
  call takes one millisecond, \<open>''BAD''\<close> comes back with \<^verbatim>\<open>success = false\<close>, and the
  ROLLBACK statement throws.\<close>

definition ok_result :: QueryResult where
  "ok_result =
     \<lparr>success = True, data = Some [], recordset = Some [], rowsAffected = 0,
      returnValue = None, error = None, executionTime = 1\<rparr>"

definition sample_double :: "nat query_access" where
  "sample_double =
     \<lparr>clock = (\<lambda>w. int w),
      executeQuery_current =
        (\<lambda>q options w.
           (if q = ''ROLLBACK TRANSACTION'' then Inl (Error ''connection lost'')
            else if q = ''BAD'' then Inr (failed_result ''Invalid object name'' 1)
            else Inr ok_result,
            Suc w))\<rparr>"

text \<open>A stand-in for the current connection of the schema service at a fixed time of
  day: the clock shows the world, and asking the adapter for a table fails, so a result
  can only come from the cache.\<close>

definition sample_schema_double :: "nat schema_access" where
  "sample_schema_double =
     \<lparr>clock = (\<lambda>w. int w),
      executeQuery_current = executeQuery_current sample_double,
      getTableInfo_current = (\<lambda>tableName w. (Inl (Error ''adapter reached''), Suc w))\<rparr>"

section \<open>Properties of PerformanceAlert\<close>

lemma reachable_alert_timestamps:
  "reachable_alert a \<Longrightarrow>
     (status a = Resolved \<longleftrightarrow> resolvedAt a \<noteq> None) \<and>
     (status a = Acknowledged \<longrightarrow> acknowledgedAt a \<noteq> None) \<and>
     (status a = Active \<longrightarrow> acknowledgedAt a = None)"
proof (induction rule: reachable_alert.induct)
  case (created i t sev msg det c)
  then show ?case by (simp add: new_PerformanceAlert_def)
next
  case (acked a now a')
  then show ?case by (auto simp: acknowledge_def split: if_splits)
next
  case (resolved a now)
  then show ?case by (simp add: resolve_def)
qed

text \<open>
  Claim C3.  For every alert, whatever its status: \<^verbatim>\<open>resolve()\<close> cannot fail and
  leaves the alert resolved with the resolution timestamp; \<^verbatim>\<open>acknowledge()\<close> throws
  exactly when the alert is already resolved and otherwise yields the alert acknowledged
  with the acknowledgement timestamp; \<^verbatim>\<open>shouldEscalate\<close> is false for every alert
  that is not active, whatever its age, and is true exactly for an active alert whose age
  in minutes exceeds the threshold.
\<close>

theorem C3_alert_lifecycle:
  "status (resolve a now) = Resolved \<and> resolvedAt (resolve a now) = Some now
   \<and> ((\<exists>e. acknowledge a now = Inl e) \<longleftrightarrow> status a = Resolved)
   \<and> (status a \<noteq> Resolved \<longrightarrow>
        acknowledge a now = Inr (a\<lparr>status := Acknowledged, acknowledgedAt := Some now\<rparr>))
   \<and> (status a \<noteq> Active \<longrightarrow> \<not> shouldEscalate a t now)
   \<and> (shouldEscalate a t now \<longleftrightarrow>
        status a = Active \<and> real_of_int (now - createdAt a) / 60000 > t)"
  by (simp add: resolve_def acknowledge_def shouldEscalate_def)

theorem C3_alert_lifecycle_witness:
  "status (resolve (new_PerformanceAlert ''a1'' high_cpu_usage critical ''cpu'' [] 0) 5) = Resolved
   \<and> (\<exists>e. acknowledge (resolve (new_PerformanceAlert ''a1'' high_cpu_usage critical ''cpu'' [] 0) 5) 7
          = Inl e)
   \<and> \<not> shouldEscalate (resolve (new_PerformanceAlert ''a1'' high_cpu_usage critical ''cpu'' [] 0) 5)
          30 1860001
   \<and> shouldEscalate (new_PerformanceAlert ''a1'' high_cpu_usage critical ''cpu'' [] 0) 30 1860001"
  using C3_alert_lifecycle
    [of "resolve (new_PerformanceAlert ''a1'' high_cpu_usage critical ''cpu'' [] 0) 5" 7 30]
    C3_alert_lifecycle
    [of "resolve (new_PerformanceAlert ''a1'' high_cpu_usage critical ''cpu'' [] 0) 5" 1860001 30]
    C3_alert_lifecycle
    [of "new_PerformanceAlert ''a1'' high_cpu_usage critical ''cpu'' [] 0" 1860001 30]
  by (simp add: new_PerformanceAlert_def resolve_def)

section \<open>Properties of the adapters\<close>

lemma adapter_executeQuery_throws_iff:
  "(\<exists>err. fst (adapter_executeQuery D a query options w) = Inl err) \<longleftrightarrow> \<not> pool a"
  by (cases "dbType a")
     (auto simp: adapter_executeQuery_def mssql_executeQuery_def mysql_executeQuery_def
        postgresql_executeQuery_def Let_def split: prod.splits settled.splits)

lemma adapter_executeQuery_world_unconnected:
  "\<not> pool a \<Longrightarrow>
     adapter_executeQuery D a query options w = (Inl (Error ''Not connected to database.''), w)"
  by (cases "dbType a")
     (simp_all add: adapter_executeQuery_def mssql_executeQuery_def mysql_executeQuery_def
        postgresql_executeQuery_def)

text \<open>
  Claim C4.  For each of the three adapters, \<^verbatim>\<open>executeQuery\<close> throws exactly when the
  adapter has no pool; and when the adapter has a pool and the driver call rejects with
  the text \<open>e\<close>, it returns (does not throw) a result with \<^verbatim>\<open>success = false\<close>,
  \<^verbatim>\<open>rowsAffected = 0\<close> and \<^verbatim>\<open>error = e\<close>.
\<close>

theorem C4_executeQuery_driver_failure:
  "((\<exists>err. fst (adapter_executeQuery D a query options w) = Inl err) \<longleftrightarrow> \<not> pool a)
   \<and> (pool a \<and> dbType a = mssql
        \<and> fst (mssql_request_query D query options w) = Rejected e
      \<longrightarrow> (\<exists>r. fst (adapter_executeQuery D a query options w) = Inr r
               \<and> success r = False \<and> rowsAffected r = 0 \<and> error r = Some e))
   \<and> (pool a \<and> dbType a = mysql
        \<and> fst (if has_parameters options
                then mysql_connection_execute D query (the_parameters options) w
                else mysql_connection_query D query w) = Rejected e
      \<longrightarrow> (\<exists>r. fst (adapter_executeQuery D a query options w) = Inr r
               \<and> success r = False \<and> rowsAffected r = 0 \<and> error r = Some e))
   \<and> (pool a \<and> dbType a = postgresql
        \<and> fst (pg_pool_query D query
                 (if has_parameters options then Some (the_parameters options) else None) w)
            = Rejected e
      \<longrightarrow> (\<exists>r. fst (adapter_executeQuery D a query options w) = Inr r
               \<and> success r = False \<and> rowsAffected r = 0 \<and> error r = Some e))"
proof (intro conjI impI)
  show "(\<exists>err. fst (adapter_executeQuery D a query options w) = Inl err) \<longleftrightarrow> \<not> pool a"
    by (rule adapter_executeQuery_throws_iff)
next
  assume "pool a \<and> dbType a = mssql \<and> fst (mssql_request_query D query options w) = Rejected e"
  then show "\<exists>r. fst (adapter_executeQuery D a query options w) = Inr r
               \<and> success r = False \<and> rowsAffected r = 0 \<and> error r = Some e"
    by (auto simp: adapter_executeQuery_def mssql_executeQuery_def failed_result_def Let_def
          split: prod.splits)
next
  assume "pool a \<and> dbType a = mysql
        \<and> fst (if has_parameters options
                then mysql_connection_execute D query (the_parameters options) w
                else mysql_connection_query D query w) = Rejected e"
  then show "\<exists>r. fst (adapter_executeQuery D a query options w) = Inr r
               \<and> success r = False \<and> rowsAffected r = 0 \<and> error r = Some e"
    by (auto simp: adapter_executeQuery_def mysql_executeQuery_def failed_result_def Let_def
          split: prod.splits if_splits)
next
  assume "pool a \<and> dbType a = postgresql
        \<and> fst (pg_pool_query D query
                 (if has_parameters options then Some (the_parameters options) else None) w)
            = Rejected e"
  then show "\<exists>r. fst (adapter_executeQuery D a query options w) = Inr r
               \<and> success r = False \<and> rowsAffected r = 0 \<and> error r = Some e"
    by (auto simp: adapter_executeQuery_def postgresql_executeQuery_def failed_result_def Let_def
          split: prod.splits if_splits)
qed

theorem C4_executeQuery_driver_failure_witness:
  "(\<exists>r. fst (adapter_executeQuery (sample_drivers True)
             ((new_adapter mssql sample_config)\<lparr>pool := True, connected := True\<rparr>)
             ''BAD'' None 0) = Inr r
        \<and> success r = False \<and> rowsAffected r = 0 \<and> error r = Some ''Invalid object name'')
   \<and> (\<exists>r. fst (adapter_executeQuery (sample_drivers True)
             ((new_adapter mysql sample_config)\<lparr>pool := True, connected := True\<rparr>)
             ''BAD'' None 0) = Inr r
        \<and> success r = False \<and> rowsAffected r = 0 \<and> error r = Some ''Unknown table'')
   \<and> (\<exists>r. fst (adapter_executeQuery (sample_drivers True)
             ((new_adapter postgresql sample_config)\<lparr>pool := True, connected := True\<rparr>)
             ''BAD'' None 0) = Inr r
        \<and> success r = False \<and> rowsAffected r = 0 \<and> error r = Some ''relation does not exist'')
   \<and> (\<exists>err. fst (adapter_executeQuery (sample_drivers True) (new_adapter mssql sample_config)
             ''SELECT 1'' None 0) = Inl err)"
  using
    C4_executeQuery_driver_failure
      [of "sample_drivers True" "(new_adapter mssql sample_config)\<lparr>pool := True, connected := True\<rparr>"
          "''BAD''" None 0 "''Invalid object name''"]
    C4_executeQuery_driver_failure
      [of "sample_drivers True" "(new_adapter mysql sample_config)\<lparr>pool := True, connected := True\<rparr>"
          "''BAD''" None 0 "''Unknown table''"]
    C4_executeQuery_driver_failure
      [of "sample_drivers True"
          "(new_adapter postgresql sample_config)\<lparr>pool := True, connected := True\<rparr>"
          "''BAD''" None 0 "''relation does not exist''"]
    C4_executeQuery_driver_failure
      [of "sample_drivers True" "new_adapter mssql sample_config" "''SELECT 1''" None 0 "''x''"]
  by (simp add: new_adapter_def sample_drivers_def has_parameters_def)

section \<open>Properties of the connection manager\<close>

lemma adapter_disconnect_failure_unchanged:
  "adapter_disconnect D a w = (Some e, a', w') \<Longrightarrow> a' = a"
  by (cases "dbType a")
     (auto simp: adapter_disconnect_def mssql_disconnect_def mysql_disconnect_def
        postgresql_disconnect_def split: if_splits prod.splits option.splits)

lemma keys_update: "fst ` set (AList.update k v al) = insert k (fst ` set al)"
  by (induction al) auto

lemma keys_delete: "fst ` set (AList.delete k al) = fst ` set al - {k}"
  by (induction al) auto

lemma createConnection_inv:
  "manager_inv m \<Longrightarrow> manager_inv (fst (snd (createConnection D m cid cfg ty w)))"
  by (auto simp: createConnection_def manager_inv_def falsy_def keys_update Let_def
        split: option.splits prod.splits)

lemma createConnection_failure:
  "isl (fst (createConnection D m cid cfg ty w)) \<Longrightarrow>
     fst (snd (createConnection D m cid cfg ty w)) = m"
  by (auto simp: createConnection_def Let_def split: option.splits prod.splits)

lemma switchConnection_inv:
  "switchConnection m cid = Inr m' \<Longrightarrow> manager_inv m'"
  by (force simp: switchConnection_def manager_inv_def map_of_eq_None_iff split: if_splits)

lemma first_key_delete:
  "AList.delete k al \<noteq> [] \<Longrightarrow> fst (AList.delete k al ! 0) \<in> fst ` set al - {k}"
proof -
  assume ne: "AList.delete k al \<noteq> []"
  then have "AList.delete k al ! 0 \<in> set (AList.delete k al)"
    by (simp add: nth_mem)
  then have "fst (AList.delete k al ! 0) \<in> fst ` set (AList.delete k al)"
    by (rule imageI)
  then show ?thesis by (simp add: keys_delete)
qed

lemma removeConnection_inv:
  assumes "manager_inv m"
  shows "manager_inv (fst (snd (removeConnection D m cid w)))"
proof (cases "map_of (connections m) cid")
  case None
  then show ?thesis using assms by (simp add: removeConnection_def)
next
  case (Some connection)
  obtain r c' w1 where d: "adapter_disconnect D connection w = (r, c', w1)"
    by (cases "adapter_disconnect D connection w") auto
  show ?thesis
  proof (cases r)
    case None
    show ?thesis
    proof (cases "currentConnection m = Some cid")
      case True
      then show ?thesis
        using Some d None first_key_delete[of cid "connections m"]
        by (auto simp: removeConnection_def manager_inv_def Let_def)
    next
      case False
      then show ?thesis
        using Some d None assms
        by (auto simp: removeConnection_def manager_inv_def Let_def keys_delete
              split: option.splits)
    qed
  next
    case (Some e)
    then show ?thesis
      using \<open>map_of (connections m) cid = Some connection\<close> d assms
      by (auto simp: removeConnection_def manager_inv_def keys_update split: option.splits)
  qed
qed

lemma disconnectAll_inv: "manager_inv (fst (disconnectAll D m w))"
  by (simp add: disconnectAll_def manager_inv_def split: prod.splits)

lemma autoReconnect_inv:
  "manager_inv m \<Longrightarrow> manager_inv (fst (snd (autoReconnect D m cidopt w)))"
  by (auto simp: autoReconnect_def manager_inv_def keys_update Let_def
        split: option.splits prod.splits)

lemma removeConnection_current:
  "fst (removeConnection D m cid w) = None \<Longrightarrow> currentConnection m = Some cid \<Longrightarrow>
     connections (fst (snd (removeConnection D m cid w))) = AList.delete cid (connections m)
     \<and> currentConnection (fst (snd (removeConnection D m cid w))) =
         (case map fst (AList.delete cid (connections m)) of [] \<Rightarrow> None | k # _ \<Rightarrow> Some k)"
  by (auto simp: removeConnection_def Let_def 
        split: option.splits prod.splits list.splits)

lemma getCurrentConnection_found:
  "manager_inv m \<Longrightarrow> getCurrentConnection m \<noteq> Inl (Error ''Current connection not found.'')"
  by (auto simp: getCurrentConnection_def manager_inv_def map_of_eq_None_iff
        split: option.splits)

lemma switchConnection_result:
  "(case switchConnection m cid of
      Inl e \<Rightarrow> cid \<notin> set (map fst (connections m))
    | Inr m' \<Rightarrow> manager_inv m' \<and> currentConnection m' = Some cid
               \<and> connections m' = connections m)"
  by (force simp: switchConnection_def manager_inv_def map_of_eq_None_iff)

lemma createConnection_fails:
  "(adapter_for ty cfg = None \<longrightarrow> isl (fst (createConnection D m cid cfg ty w)))
   \<and> (\<forall>a0. adapter_for ty cfg = Some a0 \<and> fst (adapter_connect D a0 w) \<noteq> None
         \<longrightarrow> isl (fst (createConnection D m cid cfg ty w)))"
  by (auto simp: createConnection_def split: option.splits prod.splits)

text \<open>
  Claim C2.  The current connection is a \<open>string option\<close>, so at most one identifier is
  current; and every operation of the manager, started where the current connection is
  unset or a key of the registry, ends in such a state.  A \<^verbatim>\<open>createConnection\<close> that
  fails (unrecognised type, or \<^verbatim>\<open>connect\<close> threw) leaves the manager as it was.  A
  successful \<^verbatim>\<open>removeConnection\<close> of the current connection leaves the identifier out
  of the registry and makes the first remaining key current, or none when no key remains.
  \<^verbatim>\<open>getCurrentConnection\<close> changes nothing and never finds the current identifier
  missing from the registry.
\<close>

theorem C2_current_connection_invariant:
  assumes "manager_inv m"
  shows
    "manager_inv (fst (snd (createConnection D m cid cfg ty w)))
     \<and> (isl (fst (createConnection D m cid cfg ty w))
          \<longrightarrow> fst (snd (createConnection D m cid cfg ty w)) = m)
     \<and> (adapter_for ty cfg = None \<longrightarrow> isl (fst (createConnection D m cid cfg ty w)))
     \<and> (\<forall>a0. adapter_for ty cfg = Some a0 \<and> fst (adapter_connect D a0 w) \<noteq> None
           \<longrightarrow> isl (fst (createConnection D m cid cfg ty w)))
     \<and> (case switchConnection m cid of
           Inl e \<Rightarrow> cid \<notin> set (map fst (connections m))
         | Inr m' \<Rightarrow> manager_inv m' \<and> currentConnection m' = Some cid
                    \<and> connections m' = connections m)
     \<and> manager_inv (fst (snd (removeConnection D m cid w)))
     \<and> (fst (removeConnection D m cid w) = None \<and> currentConnection m = Some cid \<longrightarrow>
          cid \<notin> set (map fst (connections (fst (snd (removeConnection D m cid w)))))
          \<and> currentConnection (fst (snd (removeConnection D m cid w))) \<noteq> Some cid
          \<and> currentConnection (fst (snd (removeConnection D m cid w))) =
              (case map fst (connections (fst (snd (removeConnection D m cid w)))) of
                 [] \<Rightarrow> None
               | k # _ \<Rightarrow> Some k))
     \<and> manager_inv (fst (disconnectAll D m w))
     \<and> manager_inv (fst (snd (autoReconnect D m target w)))
     \<and> getCurrentConnection m \<noteq> Inl (Error ''Current connection not found.'')"
proof -
  have rm: "fst (removeConnection D m cid w) = None \<and> currentConnection m = Some cid \<longrightarrow>
          cid \<notin> set (map fst (connections (fst (snd (removeConnection D m cid w)))))
          \<and> currentConnection (fst (snd (removeConnection D m cid w))) \<noteq> Some cid
          \<and> currentConnection (fst (snd (removeConnection D m cid w))) =
              (case map fst (connections (fst (snd (removeConnection D m cid w)))) of
                 [] \<Rightarrow> None
               | k # _ \<Rightarrow> Some k)"
  proof
    assume h: "fst (removeConnection D m cid w) = None \<and> currentConnection m = Some cid"
    let ?m' = "fst (snd (removeConnection D m cid w))"
    from h have c: "connections ?m' = AList.delete cid (connections m)"
      and cur: "currentConnection ?m' =
         (case map fst (AList.delete cid (connections m)) of [] \<Rightarrow> None | k # _ \<Rightarrow> Some k)"
      using removeConnection_current[of D m cid w] by simp_all
    have notin: "cid \<notin> set (map fst (connections ?m'))"
      by (simp add: c keys_delete)
    have "manager_inv ?m'" using assms by (rule removeConnection_inv)
    with notin have "currentConnection ?m' \<noteq> Some cid"
      by (auto simp: manager_inv_def)
    with notin cur c show
      "cid \<notin> set (map fst (connections ?m'))
       \<and> currentConnection ?m' \<noteq> Some cid
       \<and> currentConnection ?m' =
           (case map fst (connections ?m') of [] \<Rightarrow> None | k # _ \<Rightarrow> Some k)"
      by simp
  qed
  have c1: "manager_inv (fst (snd (createConnection D m cid cfg ty w)))"
    using assms by (rule createConnection_inv)
  have c2: "isl (fst (createConnection D m cid cfg ty w))
          \<longrightarrow> fst (snd (createConnection D m cid cfg ty w)) = m"
    by (rule impI) (rule createConnection_failure)
  have c3: "adapter_for ty cfg = None \<longrightarrow> isl (fst (createConnection D m cid cfg ty w))"
    by (rule createConnection_fails[THEN conjunct1])
  have c4: "\<forall>a0. adapter_for ty cfg = Some a0 \<and> fst (adapter_connect D a0 w) \<noteq> None
           \<longrightarrow> isl (fst (createConnection D m cid cfg ty w))"
    by (rule createConnection_fails[THEN conjunct2])
  have sw: "case switchConnection m cid of
           Inl e \<Rightarrow> cid \<notin> set (map fst (connections m))
         | Inr m' \<Rightarrow> manager_inv m' \<and> currentConnection m' = Some cid
                    \<and> connections m' = connections m"
    by (rule switchConnection_result)
  have r1: "manager_inv (fst (snd (removeConnection D m cid w)))"
    using assms by (rule removeConnection_inv)
  have d1: "manager_inv (fst (disconnectAll D m w))"
    by (rule disconnectAll_inv)
  have a1: "manager_inv (fst (snd (autoReconnect D m target w)))"
    using assms by (rule autoReconnect_inv)
  have g1: "getCurrentConnection m \<noteq> Inl (Error ''Current connection not found.'')"
    using assms by (rule getCurrentConnection_found)
  show ?thesis
    by (intro conjI) (fact c1 c2 c3 c4 sw r1 rm d1 a1 g1)+
qed

theorem C2_current_connection_invariant_witness:
  "manager_inv sample_manager
   \<and> manager_inv (fst (snd (removeConnection (sample_drivers True) sample_manager ''a'' 0)))
   \<and> connections (fst (snd (removeConnection (sample_drivers True) sample_manager ''a'' 0)))
        = [(''b'', sample_adapter mysql)]
   \<and> currentConnection (fst (snd (removeConnection (sample_drivers True) sample_manager ''a'' 0)))
        = Some ''b''
   \<and> fst (snd (createConnection (sample_drivers True) sample_manager ''c'' sample_config
                  ''oracle'' 0)) = sample_manager
   \<and> manager_inv (fst (disconnectAll (sample_drivers True) sample_manager 0))
   \<and> isl (switchConnection sample_manager ''zzz'')"
proof -
  have h: "manager_inv sample_manager"
    by (simp add: manager_inv_def sample_manager_def)
  have rm: "removeConnection (sample_drivers True) sample_manager ''a'' 0 =
      (None, \<lparr>connections = [(''b'', sample_adapter mysql)], currentConnection = Some ''b''\<rparr>, 1)"
    by (simp add: removeConnection_def sample_manager_def sample_adapter_def new_adapter_def
          adapter_disconnect_def mssql_disconnect_def sample_drivers_def)
  have ty: "adapter_for ''oracle'' sample_config = None"
    by (simp add: adapter_for_def)
  have sw: "isl (switchConnection sample_manager ''zzz'')"
    by (simp add: switchConnection_def sample_manager_def)
  show ?thesis
    using h rm ty sw
      C2_current_connection_invariant
        [OF h, where D = "sample_drivers True" and cid = "''a''" and cfg = sample_config
           and ty = "''oracle''" and w = 0 and target = None]
      C2_current_connection_invariant
        [OF h, where D = "sample_drivers True" and cid = "''c''" and cfg = sample_config
           and ty = "''oracle''" and w = 0 and target = None]
    by simp
qed

text \<open>
  Claim C9.  When the registered adapter's \<^verbatim>\<open>disconnect()\<close> throws inside
  \<^verbatim>\<open>removeConnection(id)\<close>, the same error is thrown to the caller and the manager
  is exactly as before: the connection is still registered under the identifier and the
  current connection is the one it was.
\<close>

theorem C9_removeConnection_disconnect_throws:
  "map_of (connections m) cid = Some connection
     \<and> fst (adapter_disconnect D connection w) = Some e
   \<longrightarrow> fst (removeConnection D m cid w) = Some e
       \<and> fst (snd (removeConnection D m cid w)) = m
       \<and> map_of (connections (fst (snd (removeConnection D m cid w)))) cid = Some connection
       \<and> currentConnection (fst (snd (removeConnection D m cid w))) = currentConnection m"
proof
  assume h: "map_of (connections m) cid = Some connection
     \<and> fst (adapter_disconnect D connection w) = Some e"
  obtain c' w1 where d: "adapter_disconnect D connection w = (Some e, c', w1)"
    using h by (cases "adapter_disconnect D connection w") auto
  then have same: "c' = connection"
    by (rule adapter_disconnect_failure_unchanged)
  have "AList.update cid connection (connections m) = connections m"
    using h by (simp add: update_triv)
  then have "removeConnection D m cid w = (Some e, m, w1)"
    using h d same by (simp add: removeConnection_def)
  then show "fst (removeConnection D m cid w) = Some e
       \<and> fst (snd (removeConnection D m cid w)) = m
       \<and> map_of (connections (fst (snd (removeConnection D m cid w)))) cid = Some connection
       \<and> currentConnection (fst (snd (removeConnection D m cid w))) = currentConnection m"
    using h by simp
qed

theorem C9_removeConnection_disconnect_throws_witness:
  "map_of (connections sample_manager) ''a'' = Some (sample_adapter mssql)
   \<and> fst (adapter_disconnect (sample_drivers False) (sample_adapter mssql) 0)
       = Some (Error ''MSSQL disconnection failed: socket hang up'')
   \<and> fst (removeConnection (sample_drivers False) sample_manager ''a'' 0)
       = Some (Error ''MSSQL disconnection failed: socket hang up'')
   \<and> fst (snd (removeConnection (sample_drivers False) sample_manager ''a'' 0)) = sample_manager"
proof -
  have h1: "map_of (connections sample_manager) ''a'' = Some (sample_adapter mssql)"
    by (simp add: sample_manager_def)
  have h2: "fst (adapter_disconnect (sample_drivers False) (sample_adapter mssql) 0)
       = Some (Error ''MSSQL disconnection failed: socket hang up'')"
    by (simp add: adapter_disconnect_def mssql_disconnect_def sample_drivers_def
          sample_adapter_def new_adapter_def)
  show ?thesis
    using h1 h2
      C9_removeConnection_disconnect_throws
        [where m = sample_manager and cid = "''a''" and connection = "sample_adapter mssql"
           and D = "sample_drivers False" and w = 0
           and e = "Error ''MSSQL disconnection failed: socket hang up''"]
    by simp
qed

section \<open>Properties of the query service\<close>

lemma executeQuery_eq:
  "executeQuery A s q options w =
     (fst (executeQuery_current A q options w),
      s\<lparr>logged := logged s @
           [(LogInfo, ''Starting query execution''),
            (if isl (fst (executeQuery_current A q options w))
             then (LogError, ''Query execution failed'')
             else (LogInfo, ''Query execution successful''))],
        queryHistory := queryHistory s @ [recorded_entry A q options w]\<rparr>,
      snd (executeQuery_current A q options w))"
  by (auto simp: executeQuery_def recorded_entry_def Let_def log_info_def log_error_def
        logQuery_def split: prod.splits sum.splits)

lemma length_replies [simp]: "length (replies A qs w) = length qs"
  by (induction qs arbitrary: w) (auto split: prod.splits)

lemma transaction_loop_char:
  "\<exists>ents ls.
     queryHistory (fst (snd (transaction_loop A s qs acc w))) = queryHistory s @ ents
   \<and> logged (fst (snd (transaction_loop A s qs acc w))) = logged s @ ls
   \<and> map query_h ents
       = map fst (take (Suc (length (takeWhile statement_ok (replies A qs w)))) qs)
   \<and> fst (transaction_loop A s qs acc w)
       = (if list_all statement_ok (replies A qs w)
          then Inr (acc @ map projr (replies A qs w))
          else Inl (statement_error
                 (replies A qs w ! length (takeWhile statement_ok (replies A qs w)))))
   \<and> snd (snd (transaction_loop A s qs acc w))
       = world_after A (take (Suc (length (takeWhile statement_ok (replies A qs w)))) qs) w"
proof (induction qs arbitrary: s acc w)
  case Nil
  then show ?case by simp
next
  case (Cons st rest)
  obtain q ps where st: "st = (q, ps)" by (cases st)
  let ?o = "Some (parameters_only ps)"
  obtain r w1 where cur: "executeQuery_current A q ?o w = (r, w1)"
    by (cases "executeQuery_current A q ?o w")
  define s1 where "s1 = fst (snd (executeQuery A s q ?o w))"
  have ex: "executeQuery A s q ?o w = (r, s1, w1)"
    and h1: "queryHistory s1 = queryHistory s @ [recorded_entry A q ?o w]"
    and l1: "\<exists>ls. logged s1 = logged s @ ls"
    unfolding s1_def using cur by (simp_all add: executeQuery_eq)
  have qe: "query_h (recorded_entry A q ?o w) = q"
    by (simp add: recorded_entry_def split: prod.splits)
  show ?case
  proof (cases "statement_ok r")
    case False
    then show ?thesis
      unfolding st using cur ex h1 l1 qe
      by (auto simp: statement_ok_def statement_error_def split: sum.splits)
  next
    case True
    then obtain result where r: "r = Inr result" and ok: "success result"
      by (auto simp: statement_ok_def split: sum.splits)
    from Cons.IH[of s1 "acc @ [result]" w1]
    obtain ents ls where
      a: "queryHistory (fst (snd (transaction_loop A s1 rest (acc @ [result]) w1)))
            = queryHistory s1 @ ents"
      and l: "logged (fst (snd (transaction_loop A s1 rest (acc @ [result]) w1)))
            = logged s1 @ ls"
      and b: "map query_h ents
            = map fst (take (Suc (length (takeWhile statement_ok (replies A rest w1)))) rest)"
      and c: "fst (transaction_loop A s1 rest (acc @ [result]) w1)
       = (if list_all statement_ok (replies A rest w1)
          then Inr ((acc @ [result]) @ map projr (replies A rest w1))
          else Inl (statement_error
                 (replies A rest w1 ! length (takeWhile statement_ok (replies A rest w1)))))"
      and d: "snd (snd (transaction_loop A s1 rest (acc @ [result]) w1))
       = world_after A (take (Suc (length (takeWhile statement_ok (replies A rest w1)))) rest) w1"
      by blast
    obtain ls1 where ls1: "logged s1 = logged s @ ls1" using l1 by blast
    have loop: "transaction_loop A s ((q, ps) # rest) acc w
        = transaction_loop A s1 rest (acc @ [result]) w1"
      using ex r ok by simp
    have rep: "replies A ((q, ps) # rest) w = r # replies A rest w1"
      using cur by simp
    have wa: "world_after A ((q, ps) # rest') w = world_after A rest' w1" for rest'
      using cur by simp
    show ?thesis
      unfolding st loop rep
      apply (rule exI[of _ "recorded_entry A q ?o w # ents"])
      apply (rule exI[of _ "ls1 @ ls"])
      using a b c d h1 True r l ls1 qe
      by (simp add: wa del: transaction_loop.simps replies.simps world_after.simps)
  qed
qed

lemma query_h_recorded_entry [simp]: "query_h (recorded_entry A q options w) = q"
  by (simp add: recorded_entry_def split: prod.splits)

lemma success_h_recorded_entry [simp]:
  "success_h (recorded_entry A q options w) = (\<not> isl (fst (executeQuery_current A q options w)))"
  by (simp add: recorded_entry_def split: prod.splits)

lemma transaction_try_char:
  fixes A :: "'w query_access" and w :: 'w and qs :: "statement list" and s0 :: QueryService
  defines "rb \<equiv> fst (executeQuery_current A ''BEGIN TRANSACTION'' None w)"
    and "wb \<equiv> snd (executeQuery_current A ''BEGIN TRANSACTION'' None w)"
  defines "rs \<equiv> replies A qs wb"
  defines "k \<equiv> length (takeWhile statement_ok rs)"
  defines "rc \<equiv> fst (executeQuery_current A ''COMMIT TRANSACTION'' None (world_after A qs wb))"
    and "wc \<equiv> snd (executeQuery_current A ''COMMIT TRANSACTION'' None (world_after A qs wb))"
  defines "T \<equiv> transaction_try A s0 qs w"
  shows "\<exists>ents ls.
      queryHistory (fst (snd T)) = queryHistory s0 @ ents
    \<and> logged (fst (snd T)) = logged s0 @ ls
    \<and> (isl rb \<longrightarrow> fst T = Inl (projl rb) \<and> map query_h ents = [''BEGIN TRANSACTION'']
          \<and> snd (snd T) = wb)
    \<and> (\<not> isl rb \<and> \<not> list_all statement_ok rs \<longrightarrow>
          fst T = Inl (statement_error (rs ! k))
          \<and> map query_h ents = ''BEGIN TRANSACTION'' # map fst (take (Suc k) qs)
          \<and> snd (snd T) = world_after A (take (Suc k) qs) wb)
    \<and> (\<not> isl rb \<and> list_all statement_ok rs \<longrightarrow>
          map query_h ents = ''BEGIN TRANSACTION'' # map fst qs @ [''COMMIT TRANSACTION'']
          \<and> snd (snd T) = wc
          \<and> fst T = (if isl rc then Inl (projl rc) else Inr (map projr rs)))"
proof (cases rb)
  case (Inl eb)
  then have "T = (Inl eb, fst (snd (executeQuery A s0 ''BEGIN TRANSACTION'' None w)), wb)"
    unfolding T_def transaction_try_def rb_def wb_def
    by (simp add: executeQuery_eq)
  then show ?thesis using Inl
    by (simp add: executeQuery_eq)
next
  case (Inr begun)
  define s1 where "s1 = fst (snd (executeQuery A s0 ''BEGIN TRANSACTION'' None w))"
  have exb: "executeQuery A s0 ''BEGIN TRANSACTION'' None w = (Inr begun, s1, wb)"
    using Inr unfolding s1_def rb_def wb_def by (simp add: executeQuery_eq)
  have h1: "queryHistory s1 = queryHistory s0 @ [recorded_entry A ''BEGIN TRANSACTION'' None w]"
    and l1: "\<exists>ls. logged s1 = logged s0 @ ls"
    unfolding s1_def by (simp_all add: executeQuery_eq)
  obtain ls1 where ls1: "logged s1 = logged s0 @ ls1" using l1 by blast
  define L where "L = transaction_loop A s1 qs [] wb"
  from transaction_loop_char[of A s1 qs "[]" wb]
  obtain ents ls where
    a: "queryHistory (fst (snd L)) = queryHistory s1 @ ents"
    and l: "logged (fst (snd L)) = logged s1 @ ls"
    and b: "map query_h ents = map fst (take (Suc k) qs)"
    and c: "fst L = (if list_all statement_ok rs then Inr (map projr rs)
                     else Inl (statement_error (rs ! k)))"
    and d: "snd (snd L) = world_after A (take (Suc k) qs) wb"
    unfolding L_def rs_def k_def by auto
  have Teq: "T = (case L of
             (Inl err, s2, w2) \<Rightarrow> (Inl err, s2, w2)
           | (Inr results, s2, w2) \<Rightarrow>
               (case executeQuery A s2 ''COMMIT TRANSACTION'' None w2 of
                  (Inl err, s3, w3) \<Rightarrow> (Inl err, s3, w3)
                | (Inr committed, s3, w3) \<Rightarrow>
                    (Inr results, log_info s3 ''Transaction completed successfully'', w3)))"
    unfolding T_def transaction_try_def L_def using exb by simp
  show ?thesis
  proof (cases "list_all statement_ok rs")
    case False
    then have "T = (Inl (statement_error (rs ! k)), fst (snd L), snd (snd L))"
      using Teq c by (cases L) (auto split: sum.splits)
    then show ?thesis
      using False Inr a l b d h1 ls1
      by (intro exI[of _ "recorded_entry A ''BEGIN TRANSACTION'' None w # ents"]
                exI[of _ "ls1 @ ls"]) simp
  next
    case True
    then have tw: "takeWhile statement_ok rs = rs"
      by (simp add: list_all_iff)
    have kn: "k = length qs"
      unfolding k_def tw by (simp add: rs_def)
    then have wa: "snd (snd L) = world_after A qs wb" using d by simp
    obtain s2 where Leq: "L = (Inr (map projr rs), s2, world_after A qs wb)"
      using c wa True by (cases L) auto
    define s3 where "s3 = fst (snd (executeQuery A s2 ''COMMIT TRANSACTION'' None (world_after A qs wb)))"
    have exc: "executeQuery A s2 ''COMMIT TRANSACTION'' None (world_after A qs wb) = (rc, s3, wc)"
      unfolding s3_def rc_def wc_def by (simp add: executeQuery_eq)
    have h3: "queryHistory s3 = queryHistory s2 @
        [recorded_entry A ''COMMIT TRANSACTION'' None (world_after A qs wb)]"
      and l3: "\<exists>ls. logged s3 = logged s2 @ ls"
      unfolding s3_def by (simp_all add: executeQuery_eq)
    obtain ls3 where ls3: "logged s3 = logged s2 @ ls3" using l3 by blast
    have s2h: "queryHistory s2 = queryHistory s1 @ ents" and s2l: "logged s2 = logged s1 @ ls"
      using a l Leq by simp_all
    show ?thesis
    proof (cases rc)
      case (Inl ec)
      then have "T = (Inl ec, s3, wc)" using Teq Leq exc by simp
      then show ?thesis
        using True Inr Inl b kn h1 ls1 h3 ls3 s2h s2l
        by (intro exI[of _ "recorded_entry A ''BEGIN TRANSACTION'' None w # ents
               @ [recorded_entry A ''COMMIT TRANSACTION'' None (world_after A qs wb)]"]
                  exI[of _ "ls1 @ ls @ ls3"]) simp
    next
      case (Inr committed)
      then have "T = (Inr (map projr rs),
                      log_info s3 ''Transaction completed successfully'', wc)"
        using Teq Leq exc by simp
      then show ?thesis
        using True \<open>rb = Inr begun\<close> Inr b kn h1 ls1 h3 ls3 s2h s2l
        by (intro exI[of _ "recorded_entry A ''BEGIN TRANSACTION'' None w # ents
               @ [recorded_entry A ''COMMIT TRANSACTION'' None (world_after A qs wb)]"]
                  exI[of _ "ls1 @ ls @ ls3 @ [(LogInfo, ''Transaction completed successfully'')]"])
           (simp add: log_info_def)
    qed
  qed
qed

lemma first_failure_takeWhile:
  assumes "first_failure rs k"
  shows "length (takeWhile statement_ok rs) = k" and "\<not> list_all statement_ok rs"
proof -
  from assms have k: "k < length rs" and pre: "list_all statement_ok (take k rs)"
    and bad: "\<not> statement_ok (rs ! k)"
    by (simp_all add: first_failure_def)
  have "takeWhile statement_ok rs = take k rs"
  proof (rule takeWhile_eq_take_P_nth)
    fix i assume "i < k" "i < length rs"
    then show "statement_ok (rs ! i)" using pre by (simp add: list_all_length)
  next
    show "\<not> statement_ok (rs ! k)" by (rule bad)
  qed
  then show "length (takeWhile statement_ok rs) = k" using k by simp
  show "\<not> list_all statement_ok rs" using k bad by (auto simp: list_all_length)
qed

lemma executeInTransaction_catch:
  assumes "transaction_try A (log_info s ''Transaction started'') qs w = (Inl err, s1, w1)"
  shows "\<exists>s2. executeInTransaction A s qs w =
            (Inl err, s2, snd (executeQuery_current A ''ROLLBACK TRANSACTION'' None w1))
          \<and> queryHistory s2 = queryHistory s1 @ [recorded_entry A ''ROLLBACK TRANSACTION'' None w1]
          \<and> logged s2 = logged s1 @
               [(LogInfo, ''Starting query execution''),
                (if isl (fst (executeQuery_current A ''ROLLBACK TRANSACTION'' None w1))
                 then (LogError, ''Query execution failed'')
                 else (LogInfo, ''Query execution successful'')),
                (if isl (fst (executeQuery_current A ''ROLLBACK TRANSACTION'' None w1))
                 then (LogError, ''Transaction rollback failed'')
                 else (LogInfo, ''Transaction rollback completed'')),
                (LogError, ''Transaction failed'')]"
  using assms
  by (cases "fst (executeQuery_current A ''ROLLBACK TRANSACTION'' None w1)")
     (simp_all add: executeInTransaction_def executeQuery_eq log_info_def log_error_def)

lemma executeInTransaction_return:
  assumes "transaction_try A (log_info s ''Transaction started'') qs w = (Inr results, s1, w1)"
  shows "executeInTransaction A s qs w = (Inr results, s1, w1)"
  using assms by (simp add: executeInTransaction_def)

text \<open>
  Every run of \<^verbatim>\<open>executeInTransaction\<close>, for every statement list and every
  behaviour of the current connection: the first statement attempted is BEGIN; when BEGIN
  throws, ROLLBACK is attempted and BEGIN's error is thrown; otherwise the statements are
  attempted in list order, and at the first statement \<open>k\<close> that throws or returns
  \<^verbatim>\<open>success = false\<close> nothing is attempted after it but ROLLBACK and that statement's
  error is thrown, whatever ROLLBACK does; when every statement succeeds, COMMIT is
  attempted and, when it returns, the results are returned in list order.  When the
  ROLLBACK call threw, \<^verbatim>\<open>Transaction rollback failed\<close> is logged.
\<close>

lemma executeInTransaction_outcome:
  fixes A :: "'w query_access"
  shows
  "(let begun = executeQuery_current A ''BEGIN TRANSACTION'' None w;
        rs = replies A queries (snd begun);
        out = executeInTransaction A s queries w;
        tried = attempted s (fst (snd out))
    in take 1 tried = [''BEGIN TRANSACTION'']
     \<and> (isl (fst begun) \<longrightarrow>
          tried = [''BEGIN TRANSACTION'', ''ROLLBACK TRANSACTION'']
          \<and> fst out = Inl (projl (fst begun)))
     \<and> (\<forall>k. \<not> isl (fst begun) \<and> first_failure rs k \<longrightarrow>
          tried = ''BEGIN TRANSACTION'' # map fst (take (Suc k) queries)
                    @ [''ROLLBACK TRANSACTION'']
          \<and> fst out = Inl (statement_error (rs ! k)))
     \<and> (\<not> isl (fst begun) \<and> list_all statement_ok rs \<longrightarrow>
          (let committed = executeQuery_current A ''COMMIT TRANSACTION'' None
                             (world_after A queries (snd begun))
           in (\<not> isl (fst committed) \<longrightarrow>
                 tried = ''BEGIN TRANSACTION'' # map fst queries @ [''COMMIT TRANSACTION'']
                 \<and> fst out = Inr (map projr rs))
            \<and> (isl (fst committed) \<longrightarrow>
                 tried = ''BEGIN TRANSACTION'' # map fst queries
                           @ [''COMMIT TRANSACTION'', ''ROLLBACK TRANSACTION'']
                 \<and> fst out = Inl (projl (fst committed)))))
     \<and> (isl (fst out) \<longrightarrow>
          last tried = ''ROLLBACK TRANSACTION''
          \<and> (\<not> success_h (last (queryHistory (fst (snd out)))) \<longrightarrow>
               (LogError, ''Transaction rollback failed'') \<in> set (newly_logged s (fst (snd out))))))"
proof -
  define rb where "rb = fst (executeQuery_current A ''BEGIN TRANSACTION'' None w)"
  define wb where "wb = snd (executeQuery_current A ''BEGIN TRANSACTION'' None w)"
  define rs where "rs = replies A queries wb"
  define k0 where "k0 = length (takeWhile statement_ok rs)"
  define rc where "rc = fst (executeQuery_current A ''COMMIT TRANSACTION'' None (world_after A queries wb))"
  define wc where "wc = snd (executeQuery_current A ''COMMIT TRANSACTION'' None (world_after A queries wb))"
  define s0 where "s0 = log_info s ''Transaction started''"
  define T where "T = transaction_try A s0 queries w"
  define out where "out = executeInTransaction A s queries w"
  define tried where "tried = attempted s (fst (snd out))"
  have s0h: "queryHistory s0 = queryHistory s"
    and s0l: "logged s0 = logged s @ [(LogInfo, ''Transaction started'')]"
    by (simp_all add: s0_def log_info_def)
  have "\<exists>ents ls.
      queryHistory (fst (snd T)) = queryHistory s0 @ ents
    \<and> logged (fst (snd T)) = logged s0 @ ls
    \<and> (isl rb \<longrightarrow> fst T = Inl (projl rb) \<and> map query_h ents = [''BEGIN TRANSACTION'']
          \<and> snd (snd T) = wb)
    \<and> (\<not> isl rb \<and> \<not> list_all statement_ok rs \<longrightarrow>
          fst T = Inl (statement_error (rs ! k0))
          \<and> map query_h ents = ''BEGIN TRANSACTION'' # map fst (take (Suc k0) queries)
          \<and> snd (snd T) = world_after A (take (Suc k0) queries) wb)
    \<and> (\<not> isl rb \<and> list_all statement_ok rs \<longrightarrow>
          map query_h ents = ''BEGIN TRANSACTION'' # map fst queries @ [''COMMIT TRANSACTION'']
          \<and> snd (snd T) = wc
          \<and> fst T = (if isl rc then Inl (projl rc) else Inr (map projr rs)))"
    unfolding T_def rb_def wb_def rs_def k0_def rc_def wc_def
    by (rule transaction_try_char)
  then obtain ents ls where
    th: "queryHistory (fst (snd T)) = queryHistory s0 @ ents"
    and tl: "logged (fst (snd T)) = logged s0 @ ls"
    and t1: "isl rb \<longrightarrow> fst T = Inl (projl rb) \<and> map query_h ents = [''BEGIN TRANSACTION'']
          \<and> snd (snd T) = wb"
    and t2: "\<not> isl rb \<and> \<not> list_all statement_ok rs \<longrightarrow>
          fst T = Inl (statement_error (rs ! k0))
          \<and> map query_h ents = ''BEGIN TRANSACTION'' # map fst (take (Suc k0) queries)
          \<and> snd (snd T) = world_after A (take (Suc k0) queries) wb"
    and t3: "\<not> isl rb \<and> list_all statement_ok rs \<longrightarrow>
          map query_h ents = ''BEGIN TRANSACTION'' # map fst queries @ [''COMMIT TRANSACTION'']
          \<and> snd (snd T) = wc
          \<and> fst T = (if isl rc then Inl (projl rc) else Inr (map projr rs))"
    by (elim exE conjE) (rule that, assumption+)
  have ents_hd: "take 1 (map query_h ents) = [''BEGIN TRANSACTION'']"
    using t1 t2 t3 by (cases "isl rb"; cases "list_all statement_ok rs") auto
  text \<open>The outcome, by the result of the try block.\<close>
  have ret: "fst T = Inr results \<Longrightarrow> out = T" for results
    unfolding out_def T_def s0_def
    using executeInTransaction_return[of A s queries w results "fst (snd T)" "snd (snd T)"]
    by (metis T_def s0_def prod.collapse)
  have caught: "\<exists>s2. out = (Inl err, s2, snd (executeQuery_current A ''ROLLBACK TRANSACTION'' None (snd (snd T))))
          \<and> queryHistory s2 = queryHistory s @ ents
               @ [recorded_entry A ''ROLLBACK TRANSACTION'' None (snd (snd T))]
          \<and> (isl (fst (executeQuery_current A ''ROLLBACK TRANSACTION'' None (snd (snd T))))
                \<longrightarrow> (LogError, ''Transaction rollback failed'') \<in> set (drop (length (logged s)) (logged s2)))"
    if "fst T = Inl err" for err
  proof -
    have "transaction_try A (log_info s ''Transaction started'') queries w
            = (Inl err, fst (snd T), snd (snd T))"
      using that unfolding T_def s0_def by (metis prod.collapse)
    from executeInTransaction_catch[OF this]
    show ?thesis
      unfolding out_def using th tl s0h s0l by auto
  qed
  have tried_ret: "tried = map query_h ents" if "fst T = Inr results" for results
    using ret[OF that] th s0h by (simp add: tried_def attempted_def)
  have tried_caught: "tried = map query_h ents @ [''ROLLBACK TRANSACTION'']
      \<and> fst out = Inl err
      \<and> (\<not> success_h (last (queryHistory (fst (snd out)))) \<longrightarrow>
               (LogError, ''Transaction rollback failed'') \<in> set (newly_logged s (fst (snd out))))"
    if "fst T = Inl err" for err
    using caught[OF that] by (auto simp: tried_def attempted_def newly_logged_def)
  have p1: "take 1 tried = [''BEGIN TRANSACTION'']"
  proof (cases "fst T")
    case (Inl err)
    then show ?thesis using tried_caught[OF Inl] ents_hd by (cases ents) auto
  next
    case (Inr results)
    then show ?thesis using tried_ret[OF Inr] ents_hd by simp
  qed
  have p2: "isl rb \<longrightarrow>
          tried = [''BEGIN TRANSACTION'', ''ROLLBACK TRANSACTION'']
          \<and> fst out = Inl (projl rb)"
    using t1 tried_caught by auto
  have p3: "\<forall>k. \<not> isl rb \<and> first_failure rs k \<longrightarrow>
          tried = ''BEGIN TRANSACTION'' # map fst (take (Suc k) queries)
                    @ [''ROLLBACK TRANSACTION'']
          \<and> fst out = Inl (statement_error (rs ! k))"
  proof (intro allI impI)
    fix k assume h: "\<not> isl rb \<and> first_failure rs k"
    then have "k0 = k" and "\<not> list_all statement_ok rs"
      using first_failure_takeWhile[of rs k] by (simp_all add: k0_def)
    then show "tried = ''BEGIN TRANSACTION'' # map fst (take (Suc k) queries)
                    @ [''ROLLBACK TRANSACTION'']
          \<and> fst out = Inl (statement_error (rs ! k))"
      using h t2 tried_caught by auto
  qed
  have p4: "\<not> isl rb \<and> list_all statement_ok rs \<longrightarrow>
          ((\<not> isl rc \<longrightarrow>
                 tried = ''BEGIN TRANSACTION'' # map fst queries @ [''COMMIT TRANSACTION'']
                 \<and> fst out = Inr (map projr rs))
            \<and> (isl rc \<longrightarrow>
                 tried = ''BEGIN TRANSACTION'' # map fst queries
                           @ [''COMMIT TRANSACTION'', ''ROLLBACK TRANSACTION'']
                 \<and> fst out = Inl (projl rc)))"
    using t3 tried_caught tried_ret ret by auto
  have p5: "isl (fst out) \<longrightarrow>
          last tried = ''ROLLBACK TRANSACTION''
          \<and> (\<not> success_h (last (queryHistory (fst (snd out)))) \<longrightarrow>
               (LogError, ''Transaction rollback failed'') \<in> set (newly_logged s (fst (snd out))))"
  proof (cases "fst T")
    case (Inl err)
    then show ?thesis using tried_caught[OF Inl] by simp
  next
    case (Inr results)
    then show ?thesis using ret[OF Inr] by simp
  qed
  show ?thesis
    unfolding Let_def
    using p1 p2 p3 p4 p5
    unfolding rb_def wb_def rs_def rc_def wc_def out_def tried_def
    by blast
qed

text \<open>
  Claim C1 holds for the order of the statements, the rollback and the error thrown
  (\<open>executeInTransaction_outcome\<close>), and for a ROLLBACK call that throws
  (\<open>executeInTransaction_catch\<close>).  It fails where it says that a rollback failure is
  logged: the statement loop treats a result with \<^verbatim>\<open>success = false\<close> as a failure, but
  the result of the ROLLBACK call is not inspected.  Here the connection of the current
  MSSQL adapter is lost after the first of three statements.  The second statement comes
  back with \<^verbatim>\<open>success = false\<close>, the third is never attempted, ROLLBACK is attempted and
  the second statement's error is thrown, as the claim says; the ROLLBACK fails as well
  (its result has \<^verbatim>\<open>success = false\<close> and the driver's error text), yet the logger
  receives \<^verbatim>\<open>Transaction rollback completed\<close> at info level and never
  \<^verbatim>\<open>Transaction rollback failed\<close>.
\<close>

theorem C1_rollback_failure_logged_completed:
  "fst (executeInTransaction (manager_access (lossy_drivers 2)) new_QueryService
          [(''UPDATE a'', None), (''UPDATE b'', None), (''UPDATE c'', None)] (sample_manager, 0))
     = Inl (Error ''Transaction query failed: Connection is closed'')
   \<and> attempted new_QueryService
        (fst (snd (executeInTransaction (manager_access (lossy_drivers 2)) new_QueryService
          [(''UPDATE a'', None), (''UPDATE b'', None), (''UPDATE c'', None)] (sample_manager, 0))))
       = [''BEGIN TRANSACTION'', ''UPDATE a'', ''UPDATE b'', ''ROLLBACK TRANSACTION'']
   \<and> snd (snd (executeInTransaction (manager_access (lossy_drivers 2)) new_QueryService
          [(''UPDATE a'', None), (''UPDATE b'', None), (''UPDATE c'', None)] (sample_manager, 0)))
       = (sample_manager, 4)
   \<and> fst (executeQuery_current (manager_access (lossy_drivers 2)) ''ROLLBACK TRANSACTION'' None
            (sample_manager, 3))
       = Inr \<lparr>success = False, data = None, recordset = None, rowsAffected = 0,
              returnValue = None, error = Some ''Connection is closed'', executionTime = 1\<rparr>
   \<and> newly_logged new_QueryService
        (fst (snd (executeInTransaction (manager_access (lossy_drivers 2)) new_QueryService
          [(''UPDATE a'', None), (''UPDATE b'', None), (''UPDATE c'', None)] (sample_manager, 0))))
       = [(LogInfo, ''Transaction started''),
          (LogInfo, ''Starting query execution''), (LogInfo, ''Query execution successful''),
          (LogInfo, ''Starting query execution''), (LogInfo, ''Query execution successful''),
          (LogInfo, ''Starting query execution''), (LogInfo, ''Query execution successful''),
          (LogInfo, ''Starting query execution''), (LogInfo, ''Query execution successful''),
          (LogInfo, ''Transaction rollback completed''),
          (LogError, ''Transaction failed'')]
   \<and> (LogError, ''Transaction rollback failed'')
       \<notin> set (newly_logged new_QueryService
        (fst (snd (executeInTransaction (manager_access (lossy_drivers 2)) new_QueryService
          [(''UPDATE a'', None), (''UPDATE b'', None), (''UPDATE c'', None)] (sample_manager, 0)))))"
  by (simp add: executeInTransaction_def transaction_try_def executeQuery_eq recorded_entry_def
        manager_access_def getCurrentConnection_def sample_manager_def sample_adapter_def
        new_adapter_def adapter_executeQuery_def mssql_executeQuery_def lossy_drivers_def
        sample_drivers_def failed_result_def new_QueryService_def attempted_def newly_logged_def
        log_info_def log_error_def transaction_query_failed_def parameters_only_def
        sample_mssql_result_def)

subsection \<open>The repository's manager and adapters as the collaborator\<close>

lemma manager_access_throws_iff:
  "isl (fst (executeQuery_current (manager_access D) q options (m, w))) \<longleftrightarrow>
     (case getCurrentConnection m of Inl e \<Rightarrow> True | Inr c \<Rightarrow> \<not> pool c)"
proof (cases "getCurrentConnection m")
  case (Inl e)
  then show ?thesis by (simp add: manager_access_def)
next
  case (Inr c)
  have "isl (fst (adapter_executeQuery D c q options w)) \<longleftrightarrow> \<not> pool c"
    using adapter_executeQuery_throws_iff[of D c q options w]
    by (cases "fst (adapter_executeQuery D c q options w)") auto
  then show ?thesis using Inr
    by (cases "adapter_executeQuery D c q options w") (simp add: manager_access_def)
qed

lemma manager_access_manager:
  "fst (snd (executeQuery_current (manager_access D) q options (m, w))) = m"
  by (simp add: manager_access_def split: sum.splits prod.splits)

lemma world_after_manager:
  "fst (world_after (manager_access D) qs (m, w)) = m"
proof (induction qs arbitrary: w)
  case Nil
  then show ?case by simp
next
  case (Cons st rest)
  obtain q ps where st: "st = (q, ps)" by (cases st)
  obtain m1 w1 where n: "snd (executeQuery_current (manager_access D) q
      (Some (parameters_only ps)) (m, w)) = (m1, w1)"
    by (cases "snd (executeQuery_current (manager_access D) q (Some (parameters_only ps)) (m, w))")
  then have "m1 = m"
    using manager_access_manager[of D q "Some (parameters_only ps)" m w] by simp
  then show ?case using Cons.IH[of w1] st n by simp
qed

lemma manager_access_commit_returns:
  assumes "\<not> isl (fst (executeQuery_current (manager_access D) ''BEGIN TRANSACTION'' None (m, w)))"
  shows "\<not> isl (fst (executeQuery_current (manager_access D) ''COMMIT TRANSACTION'' None
           (world_after (manager_access D) qs
              (snd (executeQuery_current (manager_access D) ''BEGIN TRANSACTION'' None (m, w))))))"
proof -
  obtain m1 w1 where b: "snd (executeQuery_current (manager_access D) ''BEGIN TRANSACTION''
      None (m, w)) = (m1, w1)"
    by (cases "snd (executeQuery_current (manager_access D) ''BEGIN TRANSACTION'' None (m, w))")
  then have m1: "m1 = m"
    using manager_access_manager[of D "''BEGIN TRANSACTION''" None m w] by simp
  obtain m2 w2 where a: "world_after (manager_access D) qs (m, w1) = (m2, w2)"
    by (cases "world_after (manager_access D) qs (m, w1)")
  then have m2: "m2 = m" using world_after_manager[of D qs m w1] by simp
  show ?thesis
    using assms unfolding b m1 a m2 by (simp add: manager_access_throws_iff)
qed

text \<open>With the repository's manager and adapters, a transaction whose BEGIN returned
  and whose statements all succeed returns their results: its COMMIT cannot throw.\<close>

lemma executeInTransaction_manager_commits:
  assumes "\<not> isl (fst (executeQuery_current (manager_access D) ''BEGIN TRANSACTION'' None (m, w)))"
    and "list_all statement_ok (replies (manager_access D) queries
           (snd (executeQuery_current (manager_access D) ''BEGIN TRANSACTION'' None (m, w))))"
  shows "fst (executeInTransaction (manager_access D) s queries (m, w)) =
           Inr (map projr (replies (manager_access D) queries
             (snd (executeQuery_current (manager_access D) ''BEGIN TRANSACTION'' None (m, w)))))
         \<and> attempted s (fst (snd (executeInTransaction (manager_access D) s queries (m, w))))
             = ''BEGIN TRANSACTION'' # map fst queries @ [''COMMIT TRANSACTION'']"
  using assms manager_access_commit_returns[OF assms(1), of queries]
    executeInTransaction_outcome[of "manager_access D" "(m, w)" queries s]
  by (simp add: Let_def)

subsection \<open>The history\<close>

lemma executeBatch_loop_history:
  "\<exists>ents. queryHistory (fst (snd (executeBatch_loop A s qs acc w))) = queryHistory s @ ents
          \<and> length ents \<le> length qs"
proof (induction qs arbitrary: s acc w)
  case Nil
  then show ?case by simp
next
  case (Cons q qs)
  define s1 where "s1 = fst (snd (executeQuery A s q None w))"
  define w1 where "w1 = snd (executeQuery_current A q None w)"
  have ex: "executeQuery A s q None w = (fst (executeQuery_current A q None w), s1, w1)"
    and h1: "queryHistory s1 = queryHistory s @ [recorded_entry A q None w]"
    unfolding s1_def w1_def by (simp_all add: executeQuery_eq)
  show ?case
  proof (cases "fst (executeQuery_current A q None w)")
    case (Inl err)
    then show ?thesis using ex h1 by simp
  next
    case (Inr result)
    from Cons.IH[of s1 "acc @ [result]" w1]
    obtain ents where "queryHistory (fst (snd (executeBatch_loop A s1 qs (acc @ [result]) w1)))
        = queryHistory s1 @ ents" and "length ents \<le> length qs"
      by (elim exE conjE)
    then show ?thesis using ex h1 Inr
      by (intro exI[of _ "recorded_entry A q None w # ents"]) simp
  qed
qed

lemma executeBatch_history_loop:
  "queryHistory (fst (snd (executeBatch A s qs w))) =
     queryHistory (fst (snd (executeBatch_loop A
        (log_info s ''Starting batch query execution'') qs [] w)))"
proof (cases "executeBatch_loop A (log_info s ''Starting batch query execution'') qs [] w")
  case (fields r s1 w1)
  then show ?thesis
    by (cases r) (simp_all add: executeBatch_def log_info_def log_error_def)
qed

lemma executeBatch_loop_length:
  assumes inv: "\<And>q options w. P w \<Longrightarrow>
      \<not> isl (fst (executeQuery_current A q options w)) \<and> P (snd (executeQuery_current A q options w))"
  shows "P w \<Longrightarrow> length (queryHistory (fst (snd (executeBatch_loop A s qs acc w))))
           = length (queryHistory s) + length qs"
proof (induction qs arbitrary: s acc w)
  case Nil
  then show ?case by simp
next
  case (Cons q qs)
  define s1 where "s1 = fst (snd (executeQuery A s q None w))"
  define w1 where "w1 = snd (executeQuery_current A q None w)"
  have ex: "executeQuery A s q None w = (fst (executeQuery_current A q None w), s1, w1)"
    and h1: "queryHistory s1 = queryHistory s @ [recorded_entry A q None w]"
    unfolding s1_def w1_def by (simp_all add: executeQuery_eq)
  from inv[OF Cons.prems, of q None]
  obtain result where r: "fst (executeQuery_current A q None w) = Inr result" and p1: "P w1"
    unfolding w1_def by (cases "fst (executeQuery_current A q None w)") auto
  show ?case using Cons.IH[OF p1, of s1 "acc @ [result]"] ex h1 r by simp
qed

lemma sample_manager_returns:
  "\<not> isl (fst (executeQuery_current (manager_access (sample_drivers True)) q options
             (sample_manager, w)))"
  by (simp add: manager_access_throws_iff getCurrentConnection_def sample_manager_def
        sample_adapter_def)

lemma executeBatch_sample_length:
  "length (queryHistory (fst (snd (executeBatch (manager_access (sample_drivers True)) s qs
      (sample_manager, w))))) = length (queryHistory s) + length qs"
proof -
  let ?A = "manager_access (sample_drivers True)"
  let ?P = "\<lambda>mw. fst mw = sample_manager"
  have step: "?P mw \<Longrightarrow> \<not> isl (fst (executeQuery_current ?A q options mw))
      \<and> ?P (snd (executeQuery_current ?A q options mw))" for q options mw
    using sample_manager_returns[of q options "snd mw"]
      manager_access_manager[of "sample_drivers True" q options "fst mw" "snd mw"]
    by (cases mw) simp
  have "length (queryHistory (fst (snd (executeBatch_loop ?A
          (log_info s ''Starting batch query execution'') qs [] (sample_manager, w)))))
        = length (queryHistory (log_info s ''Starting batch query execution'')) + length qs"
    by (rule executeBatch_loop_length[where P = ?P]) (use step in auto)
  then show ?thesis
    by (simp add: executeBatch_history_loop log_info_def)
qed

lemma executeBatch_history:
  "\<exists>ents. queryHistory (fst (snd (executeBatch A s qs w))) = queryHistory s @ ents
          \<and> length ents \<le> length qs"
proof -
  from executeBatch_loop_history[of A "log_info s ''Starting batch query execution''" qs "[]" w]
  show ?thesis
    by (simp add: executeBatch_history_loop log_info_def)
qed

lemma executeInTransaction_history:
  "\<exists>ents. queryHistory (fst (snd (executeInTransaction A s queries w))) = queryHistory s @ ents
          \<and> ents \<noteq> []"
proof -
  define T where "T = transaction_try A (log_info s ''Transaction started'') queries w"
  from transaction_try_char[of A "log_info s ''Transaction started''" queries w]
  obtain ents where th: "queryHistory (fst (snd T)) = queryHistory s @ ents"
    and ne: "ents \<noteq> []"
    unfolding T_def
    by (cases "isl (fst (executeQuery_current A ''BEGIN TRANSACTION'' None w))";
        cases "list_all statement_ok (replies A queries
                 (snd (executeQuery_current A ''BEGIN TRANSACTION'' None w)))")
       (auto simp: log_info_def)
  show ?thesis
  proof (cases "fst T")
    case (Inr results)
    then have "executeInTransaction A s queries w = T"
      using executeInTransaction_return[of A s queries w results "fst (snd T)" "snd (snd T)"]
      unfolding T_def by (metis prod.collapse)
    then show ?thesis using th ne by auto
  next
    case (Inl err)
    then have "transaction_try A (log_info s ''Transaction started'') queries w
        = (Inl err, fst (snd T), snd (snd T))"
      unfolding T_def by (metis prod.collapse)
    from executeInTransaction_catch[OF this] show ?thesis using th by auto
  qed
qed

text \<open>
  Claim C7, as stated, fails: with a connected MSSQL adapter whose driver rejects the
  statement, the execution fails (the result has \<^verbatim>\<open>success = false\<close> and the driver's
  error text), yet the call returns that result instead of throwing, and the entry it
  records has \<^verbatim>\<open>success = true\<close> and no error text.
\<close>

theorem C7_history_flag_counterexample:
  "(\<exists>r. fst (executeQuery (manager_access (sample_drivers True)) new_QueryService ''BAD'' None
             (sample_manager, 0)) = Inr r
        \<and> success r = False \<and> error r = Some ''Invalid object name'')
   \<and> map success_h (queryHistory (fst (snd (executeQuery (manager_access (sample_drivers True))
          new_QueryService ''BAD'' None (sample_manager, 0))))) = [True]
   \<and> map error_h (queryHistory (fst (snd (executeQuery (manager_access (sample_drivers True))
          new_QueryService ''BAD'' None (sample_manager, 0))))) = [None]"
  by (simp add: executeQuery_eq recorded_entry_def manager_access_def getCurrentConnection_def
        sample_manager_def sample_adapter_def new_adapter_def adapter_executeQuery_def
        mssql_executeQuery_def sample_drivers_def failed_result_def new_QueryService_def)

text \<open>
  Claim C7, amended.  Every call of \<^verbatim>\<open>executeQuery\<close> appends exactly one entry, with
  the statement's text, the time of recording and the elapsed time.  When the call chain
  on the current connection throws, the entry has \<^verbatim>\<open>success = false\<close> and the error's
  message, and the same error is thrown again after the entry is recorded.  When the
  call chain returns a result with \<^verbatim>\<open>success = true\<close>, the entry has
  \<^verbatim>\<open>success = true\<close> and no error text.  The caller gets exactly what the call chain
  gave, also when that is a result with \<^verbatim>\<open>success = false\<close> (the adapters turn a
  driver failure into such a result), which is returned and not thrown; the world is the
  one the call chain left.
\<close>

theorem C7_executeQuery_records:
  "(let out = executeQuery A s q options w; reply = executeQuery_current A q options w
    in (\<exists>e. queryHistory (fst (snd out)) = queryHistory s @ [e]
            \<and> query_h e = q
            \<and> timestamp_h e = clock A (snd reply)
            \<and> executionTime_h e = clock A (snd reply) - clock A w
            \<and> (isl (fst reply) \<longrightarrow>
                 success_h e = False \<and> error_h e = Some (error_message (projl (fst reply))))
            \<and> (\<forall>r. fst reply = Inr r \<and> success r \<longrightarrow> success_h e = True \<and> error_h e = None))
       \<and> fst out = fst reply
       \<and> snd (snd out) = snd reply)"
  by (cases "fst (executeQuery_current A q options w)")
     (auto simp: Let_def executeQuery_eq recorded_entry_def split: prod.splits)

theorem C7_executeQuery_records_witness:
  "isl (fst (executeQuery_current (manager_access (sample_drivers True)) ''SELECT 1'' None
              (new_ConnectionManager, 0)))
   \<and> fst (executeQuery (manager_access (sample_drivers True)) new_QueryService ''SELECT 1'' None
            (new_ConnectionManager, 0)) = Inl (Error ''No active database connection.'')
   \<and> map success_h (queryHistory (fst (snd (executeQuery (manager_access (sample_drivers True))
        new_QueryService ''SELECT 1'' None (new_ConnectionManager, 0))))) = [False]
   \<and> map error_h (queryHistory (fst (snd (executeQuery (manager_access (sample_drivers True))
        new_QueryService ''SELECT 1'' None (new_ConnectionManager, 0)))))
       = [Some ''No active database connection.'']
   \<and> (\<exists>r. fst (executeQuery_current (manager_access (sample_drivers True)) ''SELECT 1'' None
              (sample_manager, 0)) = Inr r \<and> success r)
   \<and> (\<exists>r. fst (executeQuery (manager_access (sample_drivers True)) new_QueryService ''SELECT 1''
              None (sample_manager, 0)) = Inr r \<and> success r)
   \<and> map success_h (queryHistory (fst (snd (executeQuery (manager_access (sample_drivers True))
        new_QueryService ''SELECT 1'' None (sample_manager, 0))))) = [True]
   \<and> map error_h (queryHistory (fst (snd (executeQuery (manager_access (sample_drivers True))
        new_QueryService ''SELECT 1'' None (sample_manager, 0))))) = [None]"
proof -
  have r: "executeQuery_current (manager_access (sample_drivers True)) ''SELECT 1'' None
      (new_ConnectionManager, 0)
      = (Inl (Error ''No active database connection.''), (new_ConnectionManager, 0))"
    by (simp add: manager_access_def getCurrentConnection_def new_ConnectionManager_def)
  have r2: "executeQuery_current (manager_access (sample_drivers True)) ''SELECT 1'' None
      (sample_manager, 0)
      = (Inr \<lparr>success = True, data = Some [], recordset = Some [], rowsAffected = 1,
              returnValue = None, error = None, executionTime = 1\<rparr>, (sample_manager, 1))"
    by (simp add: manager_access_def getCurrentConnection_def sample_manager_def
          sample_adapter_def new_adapter_def adapter_executeQuery_def mssql_executeQuery_def
          sample_drivers_def sample_mssql_result_def)
  show ?thesis
    using r r2
      C7_executeQuery_records
        [where A = "manager_access (sample_drivers True)" and s = new_QueryService
           and q = "''SELECT 1''" and options = None and w = "(new_ConnectionManager, 0)"]
      C7_executeQuery_records
        [where A = "manager_access (sample_drivers True)" and s = new_QueryService
           and q = "''SELECT 1''" and options = None and w = "(sample_manager, 0)"]
    by (auto simp: Let_def new_QueryService_def)
qed

text \<open>
  Claim C6, as stated, fails: there is no cap.  A batch of \<open>n\<close> statements on a
  connected adapter leaves \<open>n\<close> entries in a fresh history, for every \<open>n\<close>.
\<close>

theorem C6_history_unbounded_counterexample:
  "\<not> (\<exists>cap. \<forall>n. length (queryHistory (fst (snd (executeBatch
          (manager_access (sample_drivers True)) new_QueryService (replicate n ''SELECT 1'')
          (sample_manager, 0))))) \<le> cap)"
proof
  assume "\<exists>cap. \<forall>n. length (queryHistory (fst (snd (executeBatch
          (manager_access (sample_drivers True)) new_QueryService (replicate n ''SELECT 1'')
          (sample_manager, 0))))) \<le> cap"
  then obtain cap where "length (queryHistory (fst (snd (executeBatch
          (manager_access (sample_drivers True)) new_QueryService
          (replicate (Suc cap) ''SELECT 1'') (sample_manager, 0))))) \<le> cap"
    by (elim exE allE)
  then show False by (simp add: executeBatch_sample_length new_QueryService_def)
qed

text \<open>
  Claim C6, amended.  The history only grows: a call of \<^verbatim>\<open>executeQuery\<close> makes it one
  entry longer, \<^verbatim>\<open>executeBatch\<close> and \<^verbatim>\<open>executeInTransaction\<close> keep every entry that
  was there and add theirs behind them, and nothing but \<^verbatim>\<open>clearHistory\<close> removes an
  entry.  \<^verbatim>\<open>getQueryHistory()\<close> returns the entries most recent first, and
  \<^verbatim>\<open>getQueryHistory(n)\<close> for a positive \<open>n\<close> the \<open>n\<close> most recent of them.
\<close>

theorem C6_history_grows:
  "length (queryHistory (fst (snd (executeQuery A s q options w)))) = Suc (length (queryHistory s))
   \<and> (\<exists>ents. queryHistory (fst (snd (executeBatch A s qs w))) = queryHistory s @ ents
             \<and> length ents \<le> length qs)
   \<and> (\<exists>ents. queryHistory (fst (snd (executeInTransaction A s sts w))) = queryHistory s @ ents
             \<and> ents \<noteq> [])
   \<and> queryHistory (clearHistory s) = []
   \<and> getQueryHistory s None = rev (queryHistory s)
   \<and> (0 < n \<longrightarrow> getQueryHistory s (Some n) = take (nat n) (rev (queryHistory s)))"
proof (intro conjI)
  show "length (queryHistory (fst (snd (executeQuery A s q options w))))
      = Suc (length (queryHistory s))"
    by (simp add: executeQuery_eq)
  show "\<exists>ents. queryHistory (fst (snd (executeBatch A s qs w))) = queryHistory s @ ents
             \<and> length ents \<le> length qs"
    by (rule executeBatch_history)
  show "\<exists>ents. queryHistory (fst (snd (executeInTransaction A s sts w))) = queryHistory s @ ents
             \<and> ents \<noteq> []"
    by (rule executeInTransaction_history)
  show "queryHistory (clearHistory s) = []"
    by (simp add: clearHistory_def log_info_def)
  show "getQueryHistory s None = rev (queryHistory s)"
    by (simp add: getQueryHistory_def)
  show "0 < n \<longrightarrow> getQueryHistory s (Some n) = take (nat n) (rev (queryHistory s))"
    by (simp add: getQueryHistory_def)
qed

theorem C6_history_grows_witness:
  "(0::int) < 1
   \<and> map query_h (queryHistory (fst (snd (executeBatch sample_double new_QueryService
         [''SELECT 1'', ''SELECT 2''] 0)))) = [''SELECT 1'', ''SELECT 2'']
   \<and> map query_h (getQueryHistory (fst (snd (executeBatch sample_double new_QueryService
         [''SELECT 1'', ''SELECT 2''] 0))) (Some 1)) = [''SELECT 2'']
   \<and> map query_h (getQueryHistory (fst (snd (executeBatch sample_double new_QueryService
         [''SELECT 1'', ''SELECT 2''] 0))) None) = [''SELECT 2'', ''SELECT 1'']"
proof -
  have h: "map query_h (queryHistory (fst (snd (executeBatch sample_double new_QueryService
         [''SELECT 1'', ''SELECT 2''] 0)))) = [''SELECT 1'', ''SELECT 2'']"
    by (simp add: executeBatch_def executeQuery_eq sample_double_def log_info_def
          new_QueryService_def)
  let ?S = "fst (snd (executeBatch sample_double new_QueryService [''SELECT 1'', ''SELECT 2''] 0))"
  have g: "getQueryHistory ?S None = rev (queryHistory ?S)
      \<and> getQueryHistory ?S (Some 1) = take (nat 1) (rev (queryHistory ?S))"
    using C6_history_grows
      [where A = sample_double and s = ?S and n = 1 and q = "[]" and options = None and w = 0
         and qs = "[]" and sts = "[]"]
    by simp
  have "map query_h (getQueryHistory ?S None) = rev (map query_h (queryHistory ?S))"
    and "map query_h (getQueryHistory ?S (Some 1))
      = take (nat 1) (rev (map query_h (queryHistory ?S)))"
    using g by (simp_all add: rev_map take_map)
  then show ?thesis
    unfolding h by simp
qed

text \<open>
  Claim C10.  \<^verbatim>\<open>getQueryStats\<close> has no failing step (the model returns a plain
  value), and on an empty history it returns zero counts, a zero success rate and a zero
  average, both divisions being skipped by their guards, and for the slowest and the
  fastest statement the stand-in entry with empty text and execution time 0.  For every
  history the successful and the failed statements add up to the total.
\<close>

theorem C10_getQueryStats_empty:
  "getQueryStats (s\<lparr>queryHistory := []\<rparr>) today =
     \<lparr>totalQueries = 0, successfulQueries = 0, failedQueries = 0, successRate = 0,
      averageExecutionTime = 0,
      slowestQuery = \<lparr>summary_query = [], summary_executionTime = 0, summary_timestamp = today\<rparr>,
      fastestQuery = \<lparr>summary_query = [], summary_executionTime = 0, summary_timestamp = today\<rparr>\<rparr>
   \<and> successfulQueries (getQueryStats s today) + failedQueries (getQueryStats s today)
       = totalQueries (getQueryStats s today)"
  by (simp add: getQueryStats_def initial_summary_def preview_def Let_def)

section \<open>Properties of the schema service\<close>

lemma isCacheValid_iff:
  "fst (isCacheValid s key today) \<longleftrightarrow>
     (\<exists>c. schemaCache s key = Some c \<and> today - cached_timestamp c \<le> cacheExpiration s)"
  by (auto simp: isCacheValid_def Let_def split: option.splits)

lemma isCacheValid_expired:
  "schemaCache s key = Some c \<Longrightarrow> today - cached_timestamp c > cacheExpiration s \<Longrightarrow>
     isCacheValid s key today = (False, s\<lparr>schemaCache := (schemaCache s)(key := None)\<rparr>)"
  by (simp add: isCacheValid_def)

lemma isCacheValid_unchanged:
  "fst (isCacheValid s key today) \<or> schemaCache s key = None \<Longrightarrow>
     snd (isCacheValid s key today) = s"
  by (auto simp: isCacheValid_def Let_def split: option.splits if_splits)

lemma getTableInfo_hit:
  "schemaCache s (''table_'' @ tableName) = Some c \<Longrightarrow>
   clock A w - cached_timestamp c \<le> cacheExpiration s \<Longrightarrow>
     getTableInfo A s tableName w = (Inr (cached_data c), s, w)"
  by (simp add: getTableInfo_def isCacheValid_def Let_def)

lemma getTableInfo_miss:
  assumes "\<not> fst (isCacheValid s (''table_'' @ tableName) (clock A w))"
  shows "fst (getTableInfo A s tableName w) = fst (getTableInfo_current A tableName w)"
    and "snd (snd (getTableInfo A s tableName w)) = snd (getTableInfo_current A tableName w)"
    and "fst (getTableInfo_current A tableName w) = Inr ti \<Longrightarrow>
         schemaCache (fst (snd (getTableInfo A s tableName w))) (''table_'' @ tableName)
           = Some \<lparr>cached_data = ti,
                   cached_timestamp = clock A (snd (getTableInfo_current A tableName w))\<rparr>"
    and "fst (getTableInfo_current A tableName w) = Inl e \<Longrightarrow>
         schemaCache (fst (snd (getTableInfo A s tableName w))) (''table_'' @ tableName) = None"
  using assms
  by (cases "isCacheValid s (''table_'' @ tableName) (clock A w)";
      cases "getTableInfo_current A tableName w";
      cases "fst (getTableInfo_current A tableName w)";
      auto simp: getTableInfo_def Let_def updateCache_def log_info_def log_error_def
        isCacheValid_def split: option.splits if_splits)+

text \<open>
  Claim C5, as stated, fails at the boundary: an entry stored at time 0 and looked up at
  time 300000, exactly the default time to live, does not satisfy
  \<^verbatim>\<open>now - storedAt < ttl\<close>, yet \<open>isCacheValid\<close> accepts it, the entry stays in the
  cache and \<^verbatim>\<open>getTableInfo\<close> returns it without asking the adapter.
\<close>

theorem C5_cache_boundary_counterexample:
  "\<not> ((300000::int) - 0 < cacheExpiration (new_SchemaService :: TableInfo SchemaService))
   \<and> fst (isCacheValid (updateCache new_SchemaService ''table_users'' (basic_table_info ''users'') 0)
            ''table_users'' 300000) = True
   \<and> getTableInfo sample_schema_double
        (updateCache new_SchemaService ''table_users'' (basic_table_info ''users'') 0) ''users'' 300000
       = (Inr (basic_table_info ''users''),
          updateCache new_SchemaService ''table_users'' (basic_table_info ''users'') 0, 300000)"
  by (simp add: getTableInfo_def isCacheValid_def updateCache_def new_SchemaService_def
        sample_schema_double_def Let_def)

text \<open>
  Claim C5, amended.  A lookup accepts an entry exactly when the entry exists and
  \<^verbatim>\<open>now - storedAt\<close> is at most the time to live (five minutes by default).  A lookup
  that finds an entry older than that deletes it, and only it; a lookup that
  accepts an entry or finds none changes nothing.  \<^verbatim>\<open>getTableInfo\<close> returns an
  accepted entry as it is, without asking the adapter; otherwise it asks the current
  connection, returns or throws what that gave, and stores a returned table under the
  time after the call.  So an entry older than the time to live is never returned.
\<close>

theorem C5_cache_lookup:
  "(fst (isCacheValid s key today) \<longleftrightarrow>
      (\<exists>c. schemaCache s key = Some c \<and> today - cached_timestamp c \<le> cacheExpiration s))
   \<and> (\<forall>c. schemaCache s key = Some c \<and> today - cached_timestamp c > cacheExpiration s \<longrightarrow>
         isCacheValid s key today = (False, s\<lparr>schemaCache := (schemaCache s)(key := None)\<rparr>))
   \<and> (fst (isCacheValid s key today) \<or> schemaCache s key = None \<longrightarrow>
         snd (isCacheValid s key today) = s)
   \<and> (\<forall>c. schemaCache s (''table_'' @ tableName) = Some c
           \<and> clock A w - cached_timestamp c \<le> cacheExpiration s \<longrightarrow>
         getTableInfo A s tableName w = (Inr (cached_data c), s, w))
   \<and> (\<not> fst (isCacheValid s (''table_'' @ tableName) (clock A w)) \<longrightarrow>
         fst (getTableInfo A s tableName w) = fst (getTableInfo_current A tableName w)
         \<and> snd (snd (getTableInfo A s tableName w)) = snd (getTableInfo_current A tableName w)
         \<and> (\<forall>ti. fst (getTableInfo_current A tableName w) = Inr ti \<longrightarrow>
               schemaCache (fst (snd (getTableInfo A s tableName w))) (''table_'' @ tableName)
                 = Some \<lparr>cached_data = ti,
                         cached_timestamp = clock A (snd (getTableInfo_current A tableName w))\<rparr>))
   \<and> cacheExpiration (new_SchemaService :: TableInfo SchemaService) = 5 * 60 * 1000"
proof (intro conjI allI impI)
  show "fst (isCacheValid s key today) \<longleftrightarrow>
      (\<exists>c. schemaCache s key = Some c \<and> today - cached_timestamp c \<le> cacheExpiration s)"
    by (rule isCacheValid_iff)
next
  fix c assume "schemaCache s key = Some c \<and> today - cached_timestamp c > cacheExpiration s"
  then show "isCacheValid s key today = (False, s\<lparr>schemaCache := (schemaCache s)(key := None)\<rparr>)"
    by (simp add: isCacheValid_expired)
next
  assume "fst (isCacheValid s key today) \<or> schemaCache s key = None"
  then show "snd (isCacheValid s key today) = s" by (rule isCacheValid_unchanged)
next
  fix c assume "schemaCache s (''table_'' @ tableName) = Some c
           \<and> clock A w - cached_timestamp c \<le> cacheExpiration s"
  then show "getTableInfo A s tableName w = (Inr (cached_data c), s, w)"
    by (simp add: getTableInfo_hit)
next
  assume m: "\<not> fst (isCacheValid s (''table_'' @ tableName) (clock A w))"
  show "fst (getTableInfo A s tableName w) = fst (getTableInfo_current A tableName w)"
    using m by (rule getTableInfo_miss)
  show "snd (snd (getTableInfo A s tableName w)) = snd (getTableInfo_current A tableName w)"
    using m by (rule getTableInfo_miss)
  fix ti assume "fst (getTableInfo_current A tableName w) = Inr ti"
  with m show "schemaCache (fst (snd (getTableInfo A s tableName w))) (''table_'' @ tableName)
                 = Some \<lparr>cached_data = ti,
                         cached_timestamp = clock A (snd (getTableInfo_current A tableName w))\<rparr>"
    by (rule getTableInfo_miss)
next
  show "cacheExpiration (new_SchemaService :: TableInfo SchemaService) = 5 * 60 * 1000"
    by (simp add: new_SchemaService_def)
qed

theorem C5_cache_lookup_witness:
  "schemaCache (updateCache new_SchemaService ''table_users'' (basic_table_info ''users'') 0)
       ''table_users''
     = Some \<lparr>cached_data = basic_table_info ''users'', cached_timestamp = 0\<rparr>
   \<and> (300001::int) - 0 > cacheExpiration (new_SchemaService :: TableInfo SchemaService)
   \<and> isCacheValid (updateCache new_SchemaService ''table_users'' (basic_table_info ''users'') 0)
        ''table_users'' 300001
       = (False, (new_SchemaService :: TableInfo SchemaService))
   \<and> fst (getTableInfo sample_schema_double
        (updateCache new_SchemaService ''table_users'' (basic_table_info ''users'') 0) ''users'' 300001)
       = Inl (Error ''adapter reached'')
   \<and> fst (getTableInfo sample_schema_double
        (updateCache new_SchemaService ''table_users'' (basic_table_info ''users'') 0) ''users'' 299999)
       = Inr (basic_table_info ''users'')"
proof -
  let ?s = "updateCache new_SchemaService ''table_users'' (basic_table_info ''users'') 0
              :: TableInfo SchemaService"
  have c: "schemaCache ?s ''table_users''
      = Some \<lparr>cached_data = basic_table_info ''users'', cached_timestamp = 0\<rparr>"
    by (simp add: updateCache_def)
  have e: "cacheExpiration ?s = 300000"
    by (simp add: updateCache_def new_SchemaService_def)
  have d: "?s\<lparr>schemaCache := (schemaCache ?s)(''table_users'' := None)\<rparr> = new_SchemaService"
    by (simp add: updateCache_def new_SchemaService_def)
  have k: "clock sample_schema_double w = int w" for w
    by (simp add: sample_schema_double_def)
  have g: "fst (getTableInfo_current sample_schema_double ''users'' w) = Inl (Error ''adapter reached'')"
    for w by (simp add: sample_schema_double_def)
  show ?thesis
    using c e d g
      C5_cache_lookup[where s = ?s and key = "''table_users''" and today = 300001
         and tableName = "''users''" and A = sample_schema_double and w = 300001]
      C5_cache_lookup[where s = ?s and key = "''table_users''" and today = 299999
         and tableName = "''users''" and A = sample_schema_double and w = 299999]
    by (simp add: k new_SchemaService_def)
qed

subsection \<open>Table details of a table that does not exist\<close>

lemma then_try_Inr: "then_try (Inr x, w) f = f x w"
  by (simp add: then_try_def)

lemma then_try_Inl: "then_try (Inl e, w) f = (Inl e, w)"
  by (simp add: then_try_def)

lemma then_try_mssql_executeQuery:
  "pool a \<Longrightarrow>
     then_try (mssql_executeQuery D a q options w) f
       = f (projr (fst (mssql_executeQuery D a q options w)))
           (snd (mssql_request_query D q options w))"
  by (cases "mssql_request_query D q options w"; cases "fst (mssql_request_query D q options w)")
     (auto simp: mssql_executeQuery_def Let_def then_try_def)

lemma mssql_getTableInfo_try_name:
  assumes "pool a"
  shows "\<exists>ti. fst (mssql_getTableInfo_try D a tableName w) = Inr ti \<and> table_name ti = tableName"
  unfolding mssql_getTableInfo_try_def
  by (simp add: then_try_mssql_executeQuery[OF assms])

lemma mssql_getTableInfo_returns:
  "\<exists>ti. fst (mssql_getTableInfo D a tableName w) = Inr ti \<and> table_name ti = tableName"
proof (cases "fst (mssql_getTableInfo_try D a tableName w)")
  case (Inl e)
  then show ?thesis
    by (cases "mssql_getTableInfo_try D a tableName w")
       (simp add: mssql_getTableInfo_def basic_table_info_def)
next
  case (Inr ti)
  have "pool a"
  proof (rule ccontr)
    assume "\<not> pool a"
    then have "mssql_getTableInfo_try D a tableName w = (Inl (Error ''Not connected to database.''), w)"
      by (simp add: mssql_getTableInfo_try_def mssql_executeQuery_def then_try_Inl)
    with Inr show False by simp
  qed
  from mssql_getTableInfo_try_name[OF this, of D tableName w] Inr
  show ?thesis
    by (cases "mssql_getTableInfo_try D a tableName w") (simp add: mssql_getTableInfo_def)
qed

lemma mssql_getTableInfo_unconnected:
  "\<not> pool a \<Longrightarrow> mssql_getTableInfo D a tableName w = (Inr (basic_table_info tableName), w)"
  by (simp add: mssql_getTableInfo_def mssql_getTableInfo_try_def mssql_executeQuery_def
        then_try_Inl)

lemma mssql_query_no_rows:
  assumes "pool a" and "mssql_no_rows (fst (mssql_request_query D q options w))"
  shows "rows_or_empty (projr (fst (mssql_executeQuery D a q options w))) = []"
    and "first_row_get (projr (fst (mssql_executeQuery D a q options w))) key = None"
  using assms
  by (cases "mssql_request_query D q options w"; cases "fst (mssql_request_query D q options w)";
      auto simp: mssql_executeQuery_def Let_def mssql_no_rows_def rows_or_empty_def
        first_row_get_def failed_result_def split: option.splits)+

lemma mssql_getTableInfo_no_rows:
  assumes p: "pool a"
    and n: "\<And>q options w'. mssql_no_rows (fst (mssql_request_query D q options w'))"
  shows "fst (mssql_getTableInfo D a tableName w) = Inr (empty_table_info tableName)"
proof -
  have "fst (mssql_getTableInfo_try D a tableName w) = Inr (empty_table_info tableName)"
    unfolding mssql_getTableInfo_try_def
    by (simp add: then_try_mssql_executeQuery[OF p] mssql_query_no_rows[OF p n]
          key_names_def empty_table_info_def or_zero_def)
  then show ?thesis
    by (cases "mssql_getTableInfo_try D a tableName w") (simp add: mssql_getTableInfo_def)
qed

lemma then_try_plain:
  assumes "fst (then_try m f) = Inl e"
    and "\<And>e'. fst m = Inl e' \<Longrightarrow> \<not> is_SchemaValidationError e'"
    and "\<And>x w' e'. fst (f x w') = Inl e' \<Longrightarrow> \<not> is_SchemaValidationError e'"
  shows "\<not> is_SchemaValidationError e"
proof (cases m)
  case (Pair r w)
  show ?thesis
  proof (cases r)
    case (Inl e0)
    then show ?thesis using assms(1,2) Pair by (simp add: then_try_def)
  next
    case (Inr x)
    then show ?thesis using assms(1) assms(3)[of x w e] Pair by (simp add: then_try_def)
  qed
qed

lemma adapter_executeQuery_plain:
  "fst (mysql_executeQuery D a q options w) = Inl e \<Longrightarrow> \<not> is_SchemaValidationError e"
  "fst (postgresql_executeQuery D a q options w) = Inl e \<Longrightarrow> \<not> is_SchemaValidationError e"
  by (auto simp: mysql_executeQuery_def postgresql_executeQuery_def Let_def
        split: if_splits prod.splits settled.splits)

lemma cell_includes_plain:
  "cell_includes property cell sub = Inl e \<Longrightarrow> \<not> is_SchemaValidationError e"
  by (auto simp: cell_includes_def split: option.splits sql_value.splits)

lemma try_map_plain:
  assumes "\<And>x e'. f x = Inl e' \<Longrightarrow> \<not> is_SchemaValidationError e'"
  shows "try_map f xs = Inl e \<Longrightarrow> \<not> is_SchemaValidationError e"
proof (induction xs arbitrary: e)
  case Nil
  then show ?case by simp
next
  case (Cons x xs)
  then show ?case using assms by (auto split: sum.splits)
qed

lemma column_plain:
  "mysql_column pk r = Inl e \<Longrightarrow> \<not> is_SchemaValidationError e"
  "postgresql_column pk r = Inl e \<Longrightarrow> \<not> is_SchemaValidationError e"
  by (auto simp: mysql_column_def postgresql_column_def split: sum.splits
        dest: cell_includes_plain)

lemma then_try_returned:
  "\<not> isl (fst m) \<Longrightarrow> then_try m f = f (projr (fst m)) (snd m)"
  by (cases m; cases "fst m") (auto simp: then_try_def)

lemma executeQuery_pool_returns:
  "pool a \<Longrightarrow> \<not> isl (fst (mysql_executeQuery D a q options w))"
  "pool a \<Longrightarrow> \<not> isl (fst (postgresql_executeQuery D a q options w))"
  by (auto simp: mysql_executeQuery_def postgresql_executeQuery_def Let_def
        split: prod.splits settled.splits)

lemma executeQuery_unconnected:
  "\<not> pool a \<Longrightarrow> mysql_executeQuery D a q options w = (Inl (Error ''Not connected to database.''), w)"
  "\<not> pool a \<Longrightarrow> postgresql_executeQuery D a q options w
      = (Inl (Error ''Not connected to database.''), w)"
  by (simp_all add: mysql_executeQuery_def postgresql_executeQuery_def)

lemma mysql_getTableInfo_plain:
  assumes "fst (mysql_getTableInfo D a tableName w) = Inl e"
  shows "\<not> is_SchemaValidationError e"
proof (cases "pool a")
  case False
  then show ?thesis
    using assms by (auto simp: mysql_getTableInfo_def Let_def executeQuery_unconnected then_try_Inl)
next
  case True
  then show ?thesis
    using assms
    by (auto simp: mysql_getTableInfo_def Let_def then_try_returned executeQuery_pool_returns
          split: sum.splits dest!: try_map_plain[rotated] column_plain)
qed

lemma postgresql_getTableInfo_plain:
  assumes "fst (postgresql_getTableInfo D a tableName w) = Inl e"
  shows "\<not> is_SchemaValidationError e"
proof (cases "pool a")
  case False
  then show ?thesis
    using assms
    by (auto simp: postgresql_getTableInfo_def Let_def executeQuery_unconnected then_try_Inl)
next
  case True
  then show ?thesis
    using assms
    by (auto simp: postgresql_getTableInfo_def Let_def then_try_returned executeQuery_pool_returns
          split: sum.splits dest!: try_map_plain[rotated] column_plain)
qed

lemma adapter_getTableInfo_plain:
  assumes "fst (adapter_getTableInfo D a tableName w) = Inl e"
  shows "\<not> is_SchemaValidationError e"
proof (cases "dbType a")
  case mssql
  then show ?thesis
    using assms mssql_getTableInfo_returns[of D a tableName w]
    by (auto simp: adapter_getTableInfo_def)
next
  case mysql
  then show ?thesis
    using assms mysql_getTableInfo_plain[of D a tableName w e]
    by (simp add: adapter_getTableInfo_def)
next
  case postgresql
  then show ?thesis
    using assms postgresql_getTableInfo_plain[of D a tableName w e]
    by (simp add: adapter_getTableInfo_def)
qed

lemma getCurrentConnection_plain:
  "getCurrentConnection m = Inl e \<Longrightarrow> \<not> is_SchemaValidationError e"
  by (auto simp: getCurrentConnection_def split: option.splits if_splits)

lemma manager_getTableInfo_current:
  "fst (getTableInfo_current (manager_schema_access D) tableName (m, w)) =
     (case getCurrentConnection m of
        Inl e \<Rightarrow> Inl e
      | Inr c \<Rightarrow> fst (adapter_getTableInfo D c tableName w))"
  by (simp add: manager_schema_access_def split: sum.splits prod.splits)

lemma getTableInfo_manager_plain:
  assumes "fst (getTableInfo (manager_schema_access D) s tableName (m, w)) = Inl e"
  shows "\<not> is_SchemaValidationError e"
proof (cases "fst (isCacheValid s (''table_'' @ tableName) (clock (manager_schema_access D) (m, w)))")
  case True
  then obtain c where "schemaCache s (''table_'' @ tableName) = Some c"
    and "clock (manager_schema_access D) (m, w) - cached_timestamp c \<le> cacheExpiration s"
    unfolding isCacheValid_iff by (elim exE conjE)
  then have "fst (getTableInfo (manager_schema_access D) s tableName (m, w)) = Inr (cached_data c)"
    by (simp add: getTableInfo_hit)
  with assms show ?thesis by simp
next
  case False
  then have "fst (getTableInfo (manager_schema_access D) s tableName (m, w))
      = fst (getTableInfo_current (manager_schema_access D) tableName (m, w))"
    by (rule getTableInfo_miss)
  with assms have "(case getCurrentConnection m of
        Inl e \<Rightarrow> Inl e
      | Inr c \<Rightarrow> fst (adapter_getTableInfo D c tableName w)) = Inl e"
    by (simp add: manager_getTableInfo_current)
  then show ?thesis
    by (cases "getCurrentConnection m")
       (auto dest: getCurrentConnection_plain adapter_getTableInfo_plain)
qed

lemma mssql_getTableInfo_six:
  assumes p: "pool a"
    and n: "list_all mssql_no_rows (mssql_driver_replies D (mssql_metadata_queries tableName) w)"
  shows "fst (mssql_getTableInfo D a tableName w) = Inr (empty_table_info tableName)"
proof -
  define w1 where "w1 = snd (mssql_request_query D (mssql_columnsQuery tableName) None w)"
  define w2 where "w2 = snd (mssql_request_query D (mssql_primaryKeysQuery tableName) None w1)"
  define w3 where "w3 = snd (mssql_request_query D (mssql_foreignKeysQuery tableName) None w2)"
  define w4 where "w4 = snd (mssql_request_query D (mssql_checkConstraintsQuery tableName) None w3)"
  define w5 where "w5 = snd (mssql_request_query D (mssql_indexesQuery tableName) None w4)"
  from n have
    n1: "mssql_no_rows (fst (mssql_request_query D (mssql_columnsQuery tableName) None w))"
    and n2: "mssql_no_rows (fst (mssql_request_query D (mssql_primaryKeysQuery tableName) None w1))"
    and n3: "mssql_no_rows (fst (mssql_request_query D (mssql_foreignKeysQuery tableName) None w2))"
    and n4: "mssql_no_rows (fst (mssql_request_query D (mssql_checkConstraintsQuery tableName) None w3))"
    and n5: "mssql_no_rows (fst (mssql_request_query D (mssql_indexesQuery tableName) None w4))"
    and n6: "mssql_no_rows (fst (mssql_request_query D (mssql_tableStatsQuery tableName) None w5))"
    unfolding w1_def w2_def w3_def w4_def w5_def mssql_metadata_queries_def
    by (simp_all split: prod.splits)
  have "fst (mssql_getTableInfo_try D a tableName w) = Inr (empty_table_info tableName)"
    unfolding mssql_getTableInfo_try_def
    using mssql_query_no_rows[OF p n1] mssql_query_no_rows[OF p n2] mssql_query_no_rows[OF p n3]
      mssql_query_no_rows[OF p n4] mssql_query_no_rows[OF p n5] mssql_query_no_rows[OF p n6]
    by (simp add: then_try_mssql_executeQuery[OF p] key_names_def empty_table_info_def or_zero_def
          w1_def w2_def w3_def w4_def w5_def)
  then show ?thesis
    by (cases "mssql_getTableInfo_try D a tableName w") (simp add: mssql_getTableInfo_def)
qed

lemma getTableInfo_manager_miss:
  assumes "\<not> fst (isCacheValid s (''table_'' @ tableName) (Date_now D w))"
  shows "fst (getTableInfo (manager_schema_access D) s tableName (m, w))
            = (case getCurrentConnection m of
                 Inl e \<Rightarrow> Inl e
               | Inr c \<Rightarrow> fst (adapter_getTableInfo D c tableName w))"
proof -
  from assms have "\<not> fst (isCacheValid s (''table_'' @ tableName)
      (clock (manager_schema_access D) (m, w)))"
    by (simp add: manager_schema_access_def)
  then have "fst (getTableInfo (manager_schema_access D) s tableName (m, w))
      = fst (getTableInfo_current (manager_schema_access D) tableName (m, w))"
    by (rule getTableInfo_miss)
  then show ?thesis
    by (simp add: manager_getTableInfo_current)
qed

lemma clock_manager_schema_access:
  "clock (manager_schema_access D) mw = Date_now D (snd mw)"
  by (cases mw) (simp add: manager_schema_access_def)

lemma getTableInfo_manager_caches:
  assumes miss: "\<not> fst (isCacheValid s (''table_'' @ tableName) (Date_now D w))"
    and ret: "fst (getTableInfo (manager_schema_access D) s tableName (m, w)) = Inr ti"
  shows "schemaCache (fst (snd (getTableInfo (manager_schema_access D) s tableName (m, w))))
           (''table_'' @ tableName)
         = Some \<lparr>cached_data = ti,
                 cached_timestamp =
                   Date_now D (snd (snd (snd (getTableInfo (manager_schema_access D) s tableName
                                                (m, w)))))\<rparr>"
proof -
  let ?A = "manager_schema_access D"
  have m: "\<not> fst (isCacheValid s (''table_'' @ tableName) (clock ?A (m, w)))"
    using miss by (simp add: clock_manager_schema_access)
  have r: "fst (getTableInfo_current ?A tableName (m, w)) = Inr ti"
    using getTableInfo_miss(1)[OF m] ret by simp
  have w1: "snd (snd (getTableInfo ?A s tableName (m, w)))
      = snd (getTableInfo_current ?A tableName (m, w))"
    using m by (rule getTableInfo_miss)
  show ?thesis
    using getTableInfo_miss(3)[OF m r] w1 by (simp add: clock_manager_schema_access)
qed

text \<open>
  Claim C8, as stated, fails: with a connected MSSQL adapter whose metadata statements
  find no row for the table, as for a table that does not exist, the schema service
  returns a table information object for it, with no column, key or index, and raises
  nothing.
\<close>

theorem C8_nonexistent_table_counterexample:
  "fst (getTableInfo (manager_schema_access (sample_drivers True)) new_SchemaService
          ''no_such_table'' (sample_manager, 0))
     = Inr \<lparr>table_name = ''no_such_table'', table_schema = ''dbo'', table_type = table,
            columns = [], primaryKeys = [], foreignKeys = [], indexes = [],
            checkConstraints = Some [], rowCount = Some (VNumber 0),
            sizeKB = Some (VNumber 0)\<rparr>"
proof -
  have miss: "\<not> fst (isCacheValid (new_SchemaService :: TableInfo SchemaService)
      (''table_'' @ ''no_such_table'')
      (clock (manager_schema_access (sample_drivers True)) (sample_manager, 0)))"
    by (simp add: isCacheValid_def new_SchemaService_def)
  have cur: "getCurrentConnection sample_manager = Inr (sample_adapter mssql)"
    by (simp add: getCurrentConnection_def sample_manager_def)
  have p: "pool (sample_adapter mssql)" and t: "dbType (sample_adapter mssql) = mssql"
    by (simp_all add: sample_adapter_def new_adapter_def)
  have n: "mssql_no_rows (fst (mssql_request_query (sample_drivers True) q options w'))"
    for q options w'
    by (simp add: sample_drivers_def mssql_no_rows_def sample_mssql_result_def)
  have "fst (getTableInfo (manager_schema_access (sample_drivers True)) new_SchemaService
          ''no_such_table'' (sample_manager, 0))
      = fst (mssql_getTableInfo (sample_drivers True) (sample_adapter mssql) ''no_such_table'' 0)"
    using getTableInfo_miss(1)[OF miss]
    by (simp add: manager_getTableInfo_current cur adapter_getTableInfo_def t)
  also have "\<dots> = Inr (empty_table_info ''no_such_table'')"
    using p n by (rule mssql_getTableInfo_no_rows)
  finally show ?thesis by (simp add: empty_table_info_def)
qed

text \<open>
  Claim C8, amended.  \<^verbatim>\<open>MSSQLAdapter.getTableInfo\<close> never throws: it returns a table
  information object named after the requested table, the one with empty lists when
  none of its six metadata statements yields a row, and the basic one when the adapter
  is not connected.  \<^verbatim>\<open>SchemaService.getTableInfo\<close>, on a cache miss, returns what the
  current connection's \<^verbatim>\<open>getTableInfo\<close> returns, and stores it in the cache under the
  table's key with the time after the call, or throws what \<^verbatim>\<open>getCurrentConnection\<close> or
  that call throws; nothing it throws is a \<^verbatim>\<open>SchemaValidationError\<close>.  So with a
  connected MSSQL adapter as the current connection, a table for which the six
  statements find no row comes back as the table information object with empty lists.
\<close>

theorem C8_getTableInfo_no_validation_error:
  "(\<exists>ti. fst (mssql_getTableInfo D a tableName w) = Inr ti \<and> table_name ti = tableName)
   \<and> (pool a \<and> list_all mssql_no_rows (mssql_driver_replies D (mssql_metadata_queries tableName) w)
        \<longrightarrow> fst (mssql_getTableInfo D a tableName w) = Inr (empty_table_info tableName))
   \<and> (\<not> pool a \<longrightarrow> fst (mssql_getTableInfo D a tableName w) = Inr (basic_table_info tableName))
   \<and> (\<forall>e. fst (getTableInfo (manager_schema_access D) s tableName (m, w)) = Inl e
         \<longrightarrow> \<not> is_SchemaValidationError e)
   \<and> (\<not> fst (isCacheValid s (''table_'' @ tableName) (Date_now D w))
        \<longrightarrow> fst (getTableInfo (manager_schema_access D) s tableName (m, w))
            = (case getCurrentConnection m of
                 Inl e \<Rightarrow> Inl e
               | Inr c \<Rightarrow> fst (adapter_getTableInfo D c tableName w))
          \<and> (\<forall>ti. fst (getTableInfo (manager_schema_access D) s tableName (m, w)) = Inr ti \<longrightarrow>
                schemaCache (fst (snd (getTableInfo (manager_schema_access D) s tableName (m, w))))
                    (''table_'' @ tableName)
                  = Some \<lparr>cached_data = ti,
                          cached_timestamp =
                            Date_now D (snd (snd (snd (getTableInfo (manager_schema_access D) s
                                                         tableName (m, w)))))\<rparr>))
   \<and> (\<not> fst (isCacheValid s (''table_'' @ tableName) (Date_now D w))
        \<and> getCurrentConnection m = Inr a \<and> dbType a = mssql \<and> pool a
        \<and> list_all mssql_no_rows (mssql_driver_replies D (mssql_metadata_queries tableName) w)
        \<longrightarrow> fst (getTableInfo (manager_schema_access D) s tableName (m, w))
            = Inr (empty_table_info tableName))"
proof (intro conjI allI impI)
  show "\<exists>ti. fst (mssql_getTableInfo D a tableName w) = Inr ti \<and> table_name ti = tableName"
    by (rule mssql_getTableInfo_returns)
next
  assume "pool a \<and> list_all mssql_no_rows (mssql_driver_replies D (mssql_metadata_queries tableName) w)"
  then show "fst (mssql_getTableInfo D a tableName w) = Inr (empty_table_info tableName)"
    by (simp add: mssql_getTableInfo_six)
next
  assume "\<not> pool a"
  then show "fst (mssql_getTableInfo D a tableName w) = Inr (basic_table_info tableName)"
    by (simp add: mssql_getTableInfo_unconnected)
next
  fix e assume "fst (getTableInfo (manager_schema_access D) s tableName (m, w)) = Inl e"
  then show "\<not> is_SchemaValidationError e" by (rule getTableInfo_manager_plain)
next
  assume "\<not> fst (isCacheValid s (''table_'' @ tableName) (Date_now D w))"
  then show "fst (getTableInfo (manager_schema_access D) s tableName (m, w))
            = (case getCurrentConnection m of
                 Inl e \<Rightarrow> Inl e
               | Inr c \<Rightarrow> fst (adapter_getTableInfo D c tableName w))"
    by (rule getTableInfo_manager_miss)
next
  fix ti
  assume "\<not> fst (isCacheValid s (''table_'' @ tableName) (Date_now D w))"
    and "fst (getTableInfo (manager_schema_access D) s tableName (m, w)) = Inr ti"
  then show "schemaCache (fst (snd (getTableInfo (manager_schema_access D) s tableName (m, w))))
                    (''table_'' @ tableName)
                  = Some \<lparr>cached_data = ti,
                          cached_timestamp =
                            Date_now D (snd (snd (snd (getTableInfo (manager_schema_access D) s
                                                         tableName (m, w)))))\<rparr>"
    by (rule getTableInfo_manager_caches)
next
  assume h: "\<not> fst (isCacheValid s (''table_'' @ tableName) (Date_now D w))
        \<and> getCurrentConnection m = Inr a \<and> dbType a = mssql \<and> pool a
        \<and> list_all mssql_no_rows (mssql_driver_replies D (mssql_metadata_queries tableName) w)"
  then have "fst (getTableInfo (manager_schema_access D) s tableName (m, w))
      = fst (mssql_getTableInfo D a tableName w)"
    by (simp add: getTableInfo_manager_miss adapter_getTableInfo_def)
  with h show "fst (getTableInfo (manager_schema_access D) s tableName (m, w))
            = Inr (empty_table_info tableName)"
    by (simp add: mssql_getTableInfo_six)
qed

theorem C8_getTableInfo_no_validation_error_witness:
  "pool (sample_adapter mssql)
   \<and> list_all mssql_no_rows
        (mssql_driver_replies populated_drivers (mssql_metadata_queries ''no_such_table'') 0)
   \<and> \<not> list_all mssql_no_rows
        (mssql_driver_replies populated_drivers (mssql_metadata_queries ''users'') 0)
   \<and> fst (mssql_getTableInfo populated_drivers (sample_adapter mssql) ''no_such_table'' 0)
       = Inr (empty_table_info ''no_such_table'')
   \<and> fst (mssql_getTableInfo populated_drivers (new_adapter mssql sample_config)
            ''no_such_table'' 0) = Inr (basic_table_info ''no_such_table'')
   \<and> fst (getTableInfo (manager_schema_access populated_drivers) new_SchemaService
            ''no_such_table'' (sample_manager, 0))
       = Inr (empty_table_info ''no_such_table'')
   \<and> schemaCache (fst (snd (getTableInfo (manager_schema_access populated_drivers)
            new_SchemaService ''no_such_table'' (sample_manager, 0)))) ''table_no_such_table''
       = Some \<lparr>cached_data = empty_table_info ''no_such_table'', cached_timestamp = 6\<rparr>
   \<and> fst (getTableInfo (manager_schema_access populated_drivers) new_SchemaService
            ''no_such_table'' (new_ConnectionManager, 0))
       = Inl (Error ''No active database connection.'')
   \<and> \<not> is_SchemaValidationError (Error ''No active database connection.'')"
proof -
  have p: "pool (sample_adapter mssql)" and np: "\<not> pool (new_adapter mssql sample_config)"
    and t: "dbType (sample_adapter mssql) = mssql"
    by (simp_all add: sample_adapter_def new_adapter_def)
  have n: "list_all mssql_no_rows
        (mssql_driver_replies populated_drivers (mssql_metadata_queries ''no_such_table'') 0)"
    by (simp add: mssql_metadata_queries_def populated_drivers_def mssql_columnsQuery_def
          mssql_primaryKeysQuery_def mssql_foreignKeysQuery_def mssql_checkConstraintsQuery_def
          mssql_indexesQuery_def mssql_tableStatsQuery_def quoted_def mssql_no_rows_def
          sample_mssql_result_def)
  have u: "\<not> list_all mssql_no_rows
        (mssql_driver_replies populated_drivers (mssql_metadata_queries ''users'') 0)"
    by (simp add: mssql_metadata_queries_def populated_drivers_def mssql_no_rows_def
          users_columns_def)
  have miss: "\<not> fst (isCacheValid (new_SchemaService :: TableInfo SchemaService)
      (''table_'' @ ''no_such_table'') (Date_now populated_drivers 0))"
    by (simp add: isCacheValid_def new_SchemaService_def)
  have cur: "getCurrentConnection new_ConnectionManager = Inl (Error ''No active database connection.'')"
    and cur2: "getCurrentConnection sample_manager = Inr (sample_adapter mssql)"
    by (simp_all add: getCurrentConnection_def new_ConnectionManager_def sample_manager_def)
  have after: "snd (snd (getTableInfo (manager_schema_access populated_drivers)
      (new_SchemaService :: TableInfo SchemaService) ''no_such_table'' (sample_manager, 0)))
      = (sample_manager, 6)"
    using getTableInfo_miss(2)[where A = "manager_schema_access populated_drivers"
        and s = "new_SchemaService :: TableInfo SchemaService" and tableName = "''no_such_table''"
        and w = "(sample_manager, 0)"]
    by (simp add: isCacheValid_def new_SchemaService_def manager_schema_access_def cur2
          adapter_getTableInfo_def t mssql_getTableInfo_def mssql_getTableInfo_try_def
          then_try_mssql_executeQuery[OF p] populated_drivers_def)
  have now: "Date_now populated_drivers w = int w" for w
    by (simp add: populated_drivers_def sample_drivers_def)
  show ?thesis
    using p np n u miss cur cur2 t after
      C8_getTableInfo_no_validation_error
        [where D = populated_drivers and a = "sample_adapter mssql"
           and tableName = "''no_such_table''" and w = 0 and s = new_SchemaService
           and m = sample_manager]
      C8_getTableInfo_no_validation_error
        [where D = populated_drivers and a = "new_adapter mssql sample_config"
           and tableName = "''no_such_table''" and w = 0 and s = new_SchemaService
           and m = new_ConnectionManager]
    by (simp add: now adapter_getTableInfo_def)
qed

end
